theory Spec2Isabelle
  imports Main "HOL-Library.Word" "HOL-Library.AList"
begin

unbundle bit_operations_syntax

section \<open>The credential hasher\<close>

text \<open>
  \<^verbatim>\<open>hash_password\<close> of \<^verbatim>\<open>main.py\<close> is
  \<^verbatim>\<open>hashlib.sha256(password.encode()).hexdigest()\<close>.
  A Python text is modelled by the bytes of its UTF-8 encoding, kept in a \<open>string\<close>
  (whose characters are bytes): the encoding is injective and commutes with
  concatenation, so texts are equal exactly when their models are, and
  \<^verbatim>\<open>a + "|" + b\<close> is \<open>a @ ''|'' @ b\<close>. SHA-256 follows FIPS 180-4 on
  32-bit words.
\<close>

type_synonym byte = "8 word"
type_synonym word32 = "32 word"
type_synonym sha_state =
  "word32 \<times> word32 \<times> word32 \<times> word32 \<times> word32 \<times> word32 \<times> word32 \<times> word32"

definition encode :: "string \<Rightarrow> byte list" where
  "encode s = map of_char s"

definition length_bytes :: "nat \<Rightarrow> byte list" where
  \<comment> \<open>the message length in bits, as 8 bytes, most significant first\<close>
  "length_bytes n =
     (let w = (of_nat n :: 64 word)
      in map (\<lambda>i. ucast (drop_bit (8 * i) w)) [7, 6, 5, 4, 3, 2, 1, 0])"

definition pad :: "byte list \<Rightarrow> byte list" where
  "pad m = m @ [0x80] @ replicate ((64 - (length m + 9) mod 64) mod 64) 0
             @ length_bytes (8 * length m)"

definition blocks :: "byte list \<Rightarrow> byte list list" where
  "blocks m = map (\<lambda>i. take 64 (drop (64 * i) m)) [0..<length m div 64]"

definition word_of_bytes :: "byte list \<Rightarrow> word32" where
  "word_of_bytes bs = foldl (\<lambda>w b. push_bit 8 w OR ucast b) 0 bs"

definition block_words :: "byte list \<Rightarrow> word32 list" where
  "block_words b = map (\<lambda>i. word_of_bytes (take 4 (drop (4 * i) b))) [0..<16]"

definition Ch :: "word32 \<Rightarrow> word32 \<Rightarrow> word32 \<Rightarrow> word32" where
  "Ch x y z = (x AND y) XOR (NOT x AND z)"

definition Maj :: "word32 \<Rightarrow> word32 \<Rightarrow> word32 \<Rightarrow> word32" where
  "Maj x y z = (x AND y) XOR (x AND z) XOR (y AND z)"

definition Sigma0 :: "word32 \<Rightarrow> word32" where
  "Sigma0 x = word_rotr 2 x XOR word_rotr 13 x XOR word_rotr 22 x"

definition Sigma1 :: "word32 \<Rightarrow> word32" where
  "Sigma1 x = word_rotr 6 x XOR word_rotr 11 x XOR word_rotr 25 x"

definition sigma0 :: "word32 \<Rightarrow> word32" where
  "sigma0 x = word_rotr 7 x XOR word_rotr 18 x XOR drop_bit 3 x"

definition sigma1 :: "word32 \<Rightarrow> word32" where
  "sigma1 x = word_rotr 17 x XOR word_rotr 19 x XOR drop_bit 10 x"

definition round_constants :: "word32 list" where
  "round_constants =
    [0x428A2F98, 0x71374491, 0xB5C0FBCF, 0xE9B5DBA5,
     0x3956C25B, 0x59F111F1, 0x923F82A4, 0xAB1C5ED5,
     0xD807AA98, 0x12835B01, 0x243185BE, 0x550C7DC3,
     0x72BE5D74, 0x80DEB1FE, 0x9BDC06A7, 0xC19BF174,
     0xE49B69C1, 0xEFBE4786, 0x0FC19DC6, 0x240CA1CC,
     0x2DE92C6F, 0x4A7484AA, 0x5CB0A9DC, 0x76F988DA,
     0x983E5152, 0xA831C66D, 0xB00327C8, 0xBF597FC7,
     0xC6E00BF3, 0xD5A79147, 0x06CA6351, 0x14292967,
     0x27B70A85, 0x2E1B2138, 0x4D2C6DFC, 0x53380D13,
     0x650A7354, 0x766A0ABB, 0x81C2C92E, 0x92722C85,
     0xA2BFE8A1, 0xA81A664B, 0xC24B8B70, 0xC76C51A3,
     0xD192E819, 0xD6990624, 0xF40E3585, 0x106AA070,
     0x19A4C116, 0x1E376C08, 0x2748774C, 0x34B0BCB5,
     0x391C0CB3, 0x4ED8AA4A, 0x5B9CCA4F, 0x682E6FF3,
     0x748F82EE, 0x78A5636F, 0x84C87814, 0x8CC70208,
     0x90BEFFFA, 0xA4506CEB, 0xBEF9A3F7, 0xC67178F2]"

definition initial_state :: sha_state where
  "initial_state =
    (0x6A09E667, 0xBB67AE85, 0x3C6EF372, 0xA54FF53A,
     0x510E527F, 0x9B05688C, 0x1F83D9AB, 0x5BE0CD19)"

fun schedule :: "nat \<Rightarrow> word32 list \<Rightarrow> word32 list" where
  "schedule 0 W = W"
| "schedule (Suc n) W =
     (let t = length W
      in schedule n (W @ [sigma1 (W ! (t - 2)) + W ! (t - 7) + sigma0 (W ! (t - 15)) + W ! (t - 16)]))"

fun sha_round :: "sha_state \<Rightarrow> word32 \<times> word32 \<Rightarrow> sha_state" where
  "sha_round (a, b, c, d, e, f, g, h) (k, w) =
     (let T1 = h + Sigma1 e + Ch e f g + k + w;
          T2 = Sigma0 a + Maj a b c
      in (T1 + T2, a, b, c, d + T1, e, f, g))"

fun add_state :: "sha_state \<Rightarrow> sha_state \<Rightarrow> sha_state" where
  "add_state (a, b, c, d, e, f, g, h) (a', b', c', d', e', f', g', h') =
     (a + a', b + b', c + c', d + d', e + e', f + f', g + g', h + h')"

definition compress :: "sha_state \<Rightarrow> byte list \<Rightarrow> sha_state" where
  "compress H b =
     add_state H (foldl sha_round H (zip round_constants (schedule 48 (block_words b))))"

definition sha256 :: "byte list \<Rightarrow> sha_state" where
  "sha256 m = foldl compress initial_state (blocks (pad m))"

definition hex_digits :: string where
  "hex_digits = ''0123456789abcdef''"

definition hex_char :: "nat \<Rightarrow> char" where
  "hex_char n = hex_digits ! (n mod 16)"

definition hex_word :: "word32 \<Rightarrow> string" where
  "hex_word w = map (\<lambda>i. hex_char (unat (drop_bit (4 * i) w))) [7, 6, 5, 4, 3, 2, 1, 0]"

fun hexdigest :: "sha_state \<Rightarrow> string" where
  "hexdigest (a, b, c, d, e, f, g, h) = concat (map hex_word [a, b, c, d, e, f, g, h])"

definition hash_password :: "string \<Rightarrow> string" where
  "hash_password password = hexdigest (sha256 (encode password))"


section \<open>Documents and the document store\<close>

text \<open>
  A stored document is a Python dict from field names to values; the values this program
  stores and reads are texts, booleans and the store's 12-byte object identifiers.
\<close>

datatype val = Str string | Bool bool | ObjectId "96 word"

type_synonym document = "(string \<times> val) list"

fun str :: "val \<Rightarrow> string" where
  "str (Str s) = s"
| "str (Bool b) = (if b then ''True'' else ''False'')"
| "str (ObjectId w) = map (\<lambda>i. hex_char (unat (drop_bit (4 * i) w))) (rev [0..<24])"

text \<open>
  The handle \<^verbatim>\<open>db\<close> of the database module is \<^verbatim>\<open>None\<close> or a database:
  named collections of documents in their natural order, and the supply of fresh object
  identifiers the driver draws from.
\<close>

record database =
  collections :: "string \<Rightarrow> document list"
  next_id :: "96 word"

definition matches :: "document \<Rightarrow> document \<Rightarrow> bool" where
  \<comment> \<open>a query \<^verbatim>\<open>{field: value, ...}\<close> selects the documents holding every pair\<close>
  "matches flt doc = list_all (\<lambda>(k, v). map_of doc k = Some v) flt"

definition find_one :: "document list \<Rightarrow> document \<Rightarrow> document option" where
  "find_one coll flt = List.find (matches flt) coll"

definition count_documents :: "document list \<Rightarrow> document \<Rightarrow> nat" where
  "count_documents coll flt = length (filter (matches flt) coll)"

definition insert_one :: "database \<Rightarrow> string \<Rightarrow> document \<Rightarrow> database" where
  \<comment> \<open>a document without \<^verbatim>\<open>_id\<close> is given a fresh identifier\<close>
  "insert_one d c doc =
     (if map_of doc ''_id'' \<noteq> None
      then d\<lparr>collections := (collections d)(c := collections d c @ [doc])\<rparr>
      else d\<lparr>collections := (collections d)(c := collections d c @ [(''_id'', ObjectId (next_id d)) # doc]),
             next_id := next_id d + 1\<rparr>)"

definition insert_many :: "database \<Rightarrow> string \<Rightarrow> document list \<Rightarrow> database" where
  "insert_many d c docs = foldl (\<lambda>d' doc. insert_one d' c doc) d docs"

definition truthy :: "document option \<Rightarrow> bool" where
  \<comment> \<open>Python's truth value of a query result: \<^verbatim>\<open>None\<close> and the empty dict are false\<close>
  "truthy r = (case r of None \<Rightarrow> False | Some doc \<Rightarrow> doc \<noteq> [])"

text \<open>
  What the program can raise besides its HTTP errors: an exception with its message (the
  gateway's, the driver's), and the \<^verbatim>\<open>KeyError\<close> of the one indexing of a dict,
  \<^verbatim>\<open>u["email"]\<close>, whose text is the key between quotes.
\<close>

datatype exn = Exception string | KeyError_email

fun str_exn :: "exn \<Rightarrow> string" where
  "str_exn (Exception msg) = msg"
| "str_exn KeyError_email = [CHR 0x27] @ ''email'' @ [CHR 0x27]"

section \<open>The store gateway\<close>

definition get_documents :: "database option \<Rightarrow> string \<Rightarrow> exn + document list" where
  \<comment> \<open>Modelled from the spec: \<^verbatim>\<open>get_documents\<close> of the database module, which is not
      among the sources. The gateway "gets all documents in a named collection"; reading
      a store that cannot be reached raises.\<close>
  "get_documents db c =
     (case db of None \<Rightarrow> Inl (Exception ''Database not available'')
      | Some d \<Rightarrow> Inr (collections d c))"

definition create_document :: "database option \<Rightarrow> string \<Rightarrow> document \<Rightarrow> exn + database option" where
  \<comment> \<open>Modelled from the spec: \<^verbatim>\<open>create_document\<close> of the database module, which is not
      among the sources. The gateway "inserts a document into a named collection";
      writing to a store that cannot be reached raises.\<close>
  "create_document db c doc =
     (case db of None \<Rightarrow> Inl (Exception ''Database not available'')
      | Some d \<Rightarrow> Inr (Some (insert_one d c doc)))"

section \<open>Schemas\<close>

record User =
  name :: string
  email :: string
  password_hash :: string
  role :: string
  is_active :: bool

record RegisterRequest =
  name :: string
  email :: string
  password :: string

record LoginRequest =
  email :: string
  password :: string

record AuthResponse =
  name :: string
  email :: string
  role :: string
  token :: string

definition model_dump :: "User \<Rightarrow> document" where
  \<comment> \<open>Modelled from the spec: the document the gateway persists for a User holds the
      fields of the record (name, email, password_hash, role, is_active).\<close>
  "model_dump u =
     [(''name'', Str (User.name u)), (''email'', Str (User.email u)),
      (''password_hash'', Str (User.password_hash u)), (''role'', Str (User.role u)),
      (''is_active'', Bool (User.is_active u))]"

datatype error = HTTPException nat string | ValidationError | Raised exn

definition new_AuthResponse ::
  "val option \<Rightarrow> val option \<Rightarrow> val option \<Rightarrow> string \<Rightarrow> error + AuthResponse" where
  \<comment> \<open>\<^verbatim>\<open>AuthResponse(name=..., email=..., role=..., token=...)\<close> on looked-up values: the
      fields are declared as texts, and a missing value (\<^verbatim>\<open>None\<close>) or one that is not a
      text fails the validation of the model\<close>
  "new_AuthResponse n e r t =
     (case (n, e, r) of
        (Some (Str n'), Some (Str e'), Some (Str r')) \<Rightarrow>
          Inr \<lparr>AuthResponse.name = n', AuthResponse.email = e', AuthResponse.role = r',
               AuthResponse.token = t\<rparr>
      | _ \<Rightarrow> Inl ValidationError)"


section \<open>Seeding\<close>

definition defaults :: "document list" where
  "defaults =
     [[(''name'', Str ''Admin''), (''email'', Str ''admin@elearning.com''),
       (''password_hash'', Str (hash_password ''admin123'')), (''role'', Str ''admin''),
       (''is_active'', Bool True)],
      [(''name'', Str ''Faculty''), (''email'', Str ''faculty@elearning.com''),
       (''password_hash'', Str (hash_password ''faculty123'')), (''role'', Str ''faculty''),
       (''is_active'', Bool True)]]"

text \<open>
  The loop of \<^verbatim>\<open>ensure_default_users\<close> over the defaults, and its body. Indexing
  \<^verbatim>\<open>u["email"]\<close> raises \<^verbatim>\<open>KeyError\<close> on a dict without the key; the inserts made
  before a raise stay in the store, so the loop returns what was raised (if anything) and
  the store.
\<close>

definition ensure_user :: "database \<Rightarrow> document \<Rightarrow> exn + database" where
  "ensure_user d u =
     (case map_of u ''email'' of
        None \<Rightarrow> Inl KeyError_email
      | Some e \<Rightarrow>
          Inr (if \<not> truthy (find_one (collections d ''user'') [(''email'', e)])
               then insert_one d ''user'' u else d))"

fun ensure_each :: "database \<Rightarrow> document list \<Rightarrow> exn option \<times> database" where
  "ensure_each d [] = (None, d)"
| "ensure_each d (u # us) =
     (case ensure_user d u of
        Inl e \<Rightarrow> (Some e, d)
      | Inr d' \<Rightarrow> ensure_each d' us)"

definition ensure_default_users :: "database option \<Rightarrow> exn option \<times> database option" where
  "ensure_default_users db =
     (case db of None \<Rightarrow> (None, None)
      | Some d \<Rightarrow> (case ensure_each d defaults of (raised, d') \<Rightarrow> (raised, Some d')))"

definition samples :: "document list" where
  "samples =
     [[(''title'', Str ''Web Development''), (''category'', Str ''Courses''), (''level'', Str ''Beginner'')],
      [(''title'', Str ''Cyber Security''), (''category'', Str ''Courses''), (''level'', Str ''Intermediate'')],
      [(''title'', Str ''Python''), (''category'', Str ''Programming Languages''), (''level'', Str ''Beginner'')],
      [(''title'', Str ''C++''), (''category'', Str ''Programming Languages''), (''level'', Str ''Intermediate'')]]"

definition seed_samples :: "database option \<Rightarrow> database option" where
  "seed_samples db =
     (case db of None \<Rightarrow> None
      | Some d \<Rightarrow>
          if count_documents (collections d ''course'') [] = 0
          then Some (insert_many d ''course'' samples) else Some d)"

definition startup_event :: "database option \<Rightarrow> database option" where
  \<comment> \<open>\<^verbatim>\<open>try: ensure_default_users(); seed_samples() except Exception: pass\<close>\<close>
  "startup_event db =
     (case ensure_default_users db of
        (Some e, db') \<Rightarrow> db'
      | (None, db') \<Rightarrow> seed_samples db')"

section \<open>Registration and login\<close>

text \<open>
  A handler runs on the request the framework has validated against its request model.
  \<^verbatim>\<open>register\<close> returns its outcome and the store it leaves; \<^verbatim>\<open>login\<close> only reads.
\<close>

definition register ::
  "database option \<Rightarrow> RegisterRequest \<Rightarrow> (error + AuthResponse) \<times> database option" where
  "register db req =
     (case db of
        None \<Rightarrow> (Inl (HTTPException 500 ''Database not available''), db)
      | Some d \<Rightarrow>
          if truthy (find_one (collections d ''user'') [(''email'', Str (RegisterRequest.email req))])
          then (Inl (HTTPException 400 ''Email already registered''), db)
          else
            (let user = \<lparr>User.name = RegisterRequest.name req,
                         User.email = RegisterRequest.email req,
                         User.password_hash = hash_password (RegisterRequest.password req),
                         User.role = ''student'',
                         User.is_active = True\<rparr>
             in case create_document db ''user'' (model_dump user) of
                  Inl e \<Rightarrow> (Inl (Raised e), db)
                | Inr db' \<Rightarrow>
                    (let token = hash_password
                           (RegisterRequest.email req @ ''|'' @ RegisterRequest.password req)
                     in (Inr \<lparr>AuthResponse.name = User.name user,
                              AuthResponse.email = User.email user,
                              AuthResponse.role = User.role user,
                              AuthResponse.token = token\<rparr>, db'))))"

text \<open>
  A database is a store that answers its queries. On a handle whose store does not
  answer, the query \<^verbatim>\<open>users.find_one\<close> raises the driver's error, and nothing in the
  handler catches it: \<^verbatim>\<open>login_on\<close> is the handler past its guard, on the outcome of
  that query.
\<close>

definition login_on :: "exn + document option \<Rightarrow> LoginRequest \<Rightarrow> error + AuthResponse" where
  "login_on got req =
     (case got of
        Inl e \<Rightarrow> Inl (Raised e)
      | Inr found \<Rightarrow>
          if \<not> truthy found then Inl (HTTPException 401 ''Invalid credentials'')
          else case found of
            None \<Rightarrow> Inl (HTTPException 401 ''Invalid credentials'')
          | Some f \<Rightarrow>
              if map_of f ''password_hash'' \<noteq> Some (Str (hash_password (LoginRequest.password req)))
              then Inl (HTTPException 401 ''Invalid credentials'')
              else
                (let token = hash_password
                       (LoginRequest.email req @ ''|'' @ LoginRequest.password req)
                 in new_AuthResponse (map_of f ''name'') (map_of f ''email'')
                      (case map_of f ''role'' of None \<Rightarrow> Some (Str ''student'') | Some r \<Rightarrow> Some r)
                      token))"

definition login :: "database option \<Rightarrow> LoginRequest \<Rightarrow> error + AuthResponse" where
  "login db req =
     (case db of
        None \<Rightarrow> Inl (HTTPException 500 ''Database not available'')
      | Some d \<Rightarrow>
          login_on (Inr (find_one (collections d ''user'') [(''email'', Str (LoginRequest.email req))]))
            req)"

section \<open>Course listing\<close>

record listing =
  items :: "document list"
  error :: "string option"

definition expose_id :: "document \<Rightarrow> document" where
  \<comment> \<open>the loop body: \<^verbatim>\<open>if "_id" in it: it["id"] = str(it.pop("_id"))\<close>\<close>
  "expose_id it =
     (case map_of it ''_id'' of
        None \<Rightarrow> it
      | Some v \<Rightarrow> AList.update ''id'' (Str (str v)) (AList.delete ''_id'' it))"

definition list_courses_of :: "exn + document list \<Rightarrow> exn + listing" where
  \<comment> \<open>the handler on the outcome of its call \<^verbatim>\<open>get_documents("course")\<close>: the body of
      \<^verbatim>\<open>try\<close> either returns or raises, and \<^verbatim>\<open>except Exception as e\<close> turns every
      raise into a returned listing\<close>
  "list_courses_of got =
     (case (case got of
              Inl e \<Rightarrow> Inl e
            | Inr its \<Rightarrow> Inr \<lparr>items = map expose_id its, error = None\<rparr>) of
        Inl e \<Rightarrow> Inr \<lparr>items = [], error = Some (str_exn e)\<rparr>
      | Inr r \<Rightarrow> Inr r)"

definition list_courses :: "database option \<Rightarrow> exn + listing" where
  "list_courses db = list_courses_of (get_documents db ''course'')"

text \<open>
  The store with the \<^verbatim>\<open>is_active\<close> flag of every user document overwritten: what
  \<^verbatim>\<open>login\<close> would have to read to tell an active account from a deactivated one.
\<close>

definition set_is_active :: "bool \<Rightarrow> document \<Rightarrow> document" where
  "set_is_active b doc = map (\<lambda>(k, v). if k = ''is_active'' then (k, Bool b) else (k, v)) doc"

definition set_all_active :: "bool \<Rightarrow> database \<Rightarrow> database" where
  "set_all_active b d =
     d\<lparr>collections := (collections d)(''user'' := map (set_is_active b) (collections d ''user''))\<rparr>"

text \<open>
  The invariant of the user collection: in every document \<^verbatim>\<open>register\<close> and the
  seeding write, the name is a text and so is the role.
\<close>

definition is_text :: "val option \<Rightarrow> bool" where
  "is_text v = (case v of Some (Str s) \<Rightarrow> True | _ \<Rightarrow> False)"

definition user_record :: "document \<Rightarrow> bool" where
  "user_record u =
     (is_text (map_of u ''name'') \<and> (map_of u ''role'' = None \<or> is_text (map_of u ''role'')))"

section \<open>Properties of the hasher\<close>

lemma length_hexdigest: "length (hexdigest s) = 64"
  by (induction s rule: hexdigest.induct) (simp add: hex_word_def)

lemma length_hash_password: "length (hash_password p) = 64"
  by (simp add: hash_password_def length_hexdigest)

lemma hex_char_in: "hex_char n \<in> set hex_digits"
proof -
  have "n mod 16 < length hex_digits" by (simp add: hex_digits_def)
  then show ?thesis unfolding hex_char_def by (rule nth_mem)
qed

lemma set_hexdigest: "set (hexdigest s) \<subseteq> set hex_digits"
proof (induction s rule: hexdigest.induct)
  case (1 a b c d e f g h)
  have "set (hex_word w) \<subseteq> set hex_digits" for w
    unfolding hex_word_def using hex_char_in by auto
  then show ?case by auto
qed

lemma set_hash_password: "set (hash_password p) \<subseteq> set hex_digits"
  unfolding hash_password_def by (rule set_hexdigest)


section \<open>Evaluating the hasher\<close>

text \<open>
  The digest of a given text is computed inside the logic, stage by stage: padding, the
  sixteen words of the block, the message schedule, the sixty-four rounds in four runs of
  sixteen, and the final addition. A rotation of a numeral is a shift right joined with
  a shift left reduced modulo \<open>2 ^ 32\<close>; the schedule is stepped on the reversed list,
  where the sixteen latest words are the head of the list.
\<close>

lemma rotr_eval:
  "n < 32 \<Longrightarrow> word_rotr n (x :: 32 word) = drop_bit n x OR push_bit (32 - n) x"
proof (rule bit_word_eqI)
  fix k :: nat
  assume n: "n < 32" and k: "k < LENGTH(32)"
  show "bit (word_rotr n x) k \<longleftrightarrow> bit (drop_bit n x OR push_bit (32 - n) x) k"
  proof (cases "k + n < 32")
    case True
    with n k show ?thesis by (auto simp: bit_simps add.commute)
  next
    case False
    with n k have m: "(k + n) mod 32 = k + n - 32"
      by (simp add: mod_if)
    from False have "\<not> bit x (n + k)"
      using bit_imp_le_length [of x "n + k"] by auto
    with n k False m show ?thesis by (auto simp: bit_simps add.commute)
  qed
qed

lemma of_nat_mod32: "(word_of_nat (n mod 4294967296) :: 32 word) = word_of_nat n"
  by (simp add: word_of_nat_eq_iff take_bit_eq_mod)

lemma push_eval:
  "push_bit k (numeral a :: 32 word) = word_of_nat ((numeral a * 2 ^ k) mod 4294967296)"
  by (simp only: of_nat_mod32) (simp add: push_bit_eq_mult)

lemma not_eval: "NOT (x :: 32 word) = x XOR 4294967295"
proof -
  have m: "(4294967295 :: 32 word) = - 1" by simp
  show ?thesis unfolding m by simp
qed

lemma schedule_rev_Suc:
  "schedule (Suc n)
     (rev (w1 # w2 # w3 # w4 # w5 # w6 # w7 # w8 # w9 # w10 # w11 # w12 # w13 # w14 # w15 # w16 # ws)) =
   schedule n
     (rev ((sigma1 w2 + w7 + sigma0 w15 + w16) #
        w1 # w2 # w3 # w4 # w5 # w6 # w7 # w8 # w9 # w10 # w11 # w12 # w13 # w14 # w15 # w16 # ws))"
  by (simp add: Let_def nth_append)

lemma schedule_rev_numeral:
  "schedule (numeral k)
     (rev (w1 # w2 # w3 # w4 # w5 # w6 # w7 # w8 # w9 # w10 # w11 # w12 # w13 # w14 # w15 # w16 # ws)) =
   schedule (pred_numeral k)
     (rev ((sigma1 w2 + w7 + sigma0 w15 + w16) #
        w1 # w2 # w3 # w4 # w5 # w6 # w7 # w8 # w9 # w10 # w11 # w12 # w13 # w14 # w15 # w16 # ws))"
  unfolding numeral_eq_Suc by (rule schedule_rev_Suc)


lemma replicate_numeral_eval: "replicate (numeral k) x = x # replicate (pred_numeral k) x"
  by (simp add: numeral_eq_Suc)

lemma upt_numeral_eval:
  "[i..<numeral k] = (if i \<le> pred_numeral k then [i..<pred_numeral k] @ [pred_numeral k] else [])"
  by (simp add: numeral_eq_Suc)

text \<open>
  The one-block test vector of FIPS 180-4: the digest of \<^verbatim>\<open>abc\<close>.
\<close>

lemma block_abc:
  "blocks (pad (encode ''abc'')) =
     [[97, 98, 99, 128, 0, 0, 0, 0, 0, 0, 0, 0, 0, 0, 0, 0, 0, 0, 0, 0, 0, 0, 0, 0, 0, 0, 0, 0,
      0, 0, 0, 0, 0, 0, 0, 0, 0, 0, 0, 0, 0, 0, 0, 0, 0, 0, 0, 0, 0, 0, 0, 0, 0, 0, 0, 0, 0, 0,
      0, 0, 0, 0, 0, 24]]"
  by (simp add: encode_def pad_def length_bytes_def blocks_def replicate_numeral_eval)

lemma words_abc:
  "block_words
     [97, 98, 99, 128, 0, 0, 0, 0, 0, 0, 0, 0, 0, 0, 0, 0, 0, 0, 0, 0, 0, 0, 0, 0, 0, 0, 0, 0,
      0, 0, 0, 0, 0, 0, 0, 0, 0, 0, 0, 0, 0, 0, 0, 0, 0, 0, 0, 0, 0, 0, 0, 0, 0, 0, 0, 0, 0, 0,
      0, 0, 0, 0, 0, 24] =
   rev [24, 0, 0, 0, 0, 0, 0, 0, 0, 0, 0, 0, 0, 0, 0, 1633837952]"
  by (simp add: block_words_def word_of_bytes_def upt_numeral_eval)

lemma schedule_abc:
  "schedule 48
     (rev [24, 0, 0, 0, 0, 0, 0, 0, 0, 0, 0, 0, 0, 0, 0, 1633837952]) =
   rev [313650667, 4004225740, 1720397816, 2755645205, 2025622859, 2682456414, 3957764664,
        4015503821, 2987358873, 344409900, 3256115900, 2226839261, 2845390439, 3118885940,
        3430291419, 4215179723, 106709978, 2049510749, 2215296807, 206005234, 657669027,
        1042573945, 4037431130, 2672279444, 610538786, 2483675966, 1924104970, 176896406,
        4043988066, 2952069057, 996719219, 2482346367, 3552024379, 1881225380, 3968280267,
        2636160359, 845560923, 3854317833, 3073800610, 3357629466, 3806512014, 316456923,
        25426944, 1050508152, 1610613702, 2108187653, 983040, 1633837952, 24, 0, 0, 0, 0, 0, 0,
        0, 0, 0, 0, 0, 0, 0, 0, 1633837952]"
  by (simp add: schedule_rev_numeral schedule_rev_Suc sigma0_def sigma1_def rotr_eval push_eval
      del: rev.simps schedule.simps(2))

lemma rounds0_abc:
  "foldl sha_round
     initial_state
     (zip (take 16 (drop 0 round_constants))
        [1633837952, 0, 0, 0, 0, 0, 0, 0, 0, 0, 0, 0, 0, 0, 0, 24]) =
   (2969183118, 3227803614, 3643992854, 2274437520, 123276749, 194179596, 1952073950, 509051416)"
  by (simp add: initial_state_def round_constants_def Sigma0_def Sigma1_def Ch_def Maj_def
      rotr_eval push_eval not_eval Let_def)

lemma rounds1_abc:
  "foldl sha_round
     (2969183118, 3227803614, 3643992854, 2274437520, 123276749, 194179596, 1952073950,
      509051416)
     (zip (take 16 (drop 16 round_constants))
        [1633837952, 983040, 2108187653, 1610613702, 1050508152, 25426944, 316456923,
         3806512014, 3357629466, 3073800610, 3854317833, 845560923, 2636160359, 3968280267,
         1881225380, 3552024379]) =
   (1941126133, 3935906338, 2684750640, 909411017, 3126399250, 17410874, 2917635127, 1628611511)"
  by (simp add: initial_state_def round_constants_def Sigma0_def Sigma1_def Ch_def Maj_def
      rotr_eval push_eval not_eval Let_def)

lemma rounds2_abc:
  "foldl sha_round
     (1941126133, 3935906338, 2684750640, 909411017, 3126399250, 17410874, 2917635127,
      1628611511)
     (zip (take 16 (drop 32 round_constants))
        [2482346367, 996719219, 2952069057, 4043988066, 176896406, 1924104970, 2483675966,
         610538786, 2672279444, 4037431130, 1042573945, 657669027, 206005234, 2215296807,
         2049510749, 106709978]) =
   (1098003085, 2706117808, 1923828625, 643991573, 4274981830, 3581645993, 3077922209,
    2819559920)"
  by (simp add: initial_state_def round_constants_def Sigma0_def Sigma1_def Ch_def Maj_def
      rotr_eval push_eval not_eval Let_def)

lemma rounds3_abc:
  "foldl sha_round
     (1098003085, 2706117808, 1923828625, 643991573, 4274981830, 3581645993, 3077922209,
      2819559920)
     (zip (take 16 (drop 48 round_constants))
        [4215179723, 3430291419, 3118885940, 2845390439, 2226839261, 3256115900, 344409900,
         2987358873, 4015503821, 3957764664, 2682456414, 2025622859, 2755645205, 1720397816,
         4004225740, 313650667]) =
   (1349398616, 3550093669, 80891244, 3093179625, 1593118500, 4212265488, 2492278198,
    2518632596)"
  by (simp add: initial_state_def round_constants_def Sigma0_def Sigma1_def Ch_def Maj_def
      rotr_eval push_eval not_eval Let_def)

lemma compress_abc:
  "compress initial_state
     [97, 98, 99, 128, 0, 0, 0, 0, 0, 0, 0, 0, 0, 0, 0, 0, 0, 0, 0, 0, 0, 0, 0, 0, 0, 0, 0, 0,
      0, 0, 0, 0, 0, 0, 0, 0, 0, 0, 0, 0, 0, 0, 0, 0, 0, 0, 0, 0, 0, 0, 0, 0, 0, 0, 0, 0, 0, 0,
      0, 0, 0, 0, 0, 24] =
   (3128432319, 2399260650, 1094795486, 1571693091, 2953011619, 2518121116, 3021012833,
    4060091821)"
proof -
  have split: "zip round_constants (rev [313650667, 4004225740, 1720397816, 2755645205, 2025622859, 2682456414, 3957764664,
      4015503821, 2987358873, 344409900, 3256115900, 2226839261, 2845390439, 3118885940,
      3430291419, 4215179723, 106709978, 2049510749, 2215296807, 206005234, 657669027,
      1042573945, 4037431130, 2672279444, 610538786, 2483675966, 1924104970, 176896406,
      4043988066, 2952069057, 996719219, 2482346367, 3552024379, 1881225380, 3968280267,
      2636160359, 845560923, 3854317833, 3073800610, 3357629466, 3806512014, 316456923,
      25426944, 1050508152, 1610613702, 2108187653, 983040, 1633837952, 24, 0, 0, 0, 0, 0, 0,
      0, 0, 0, 0, 0, 0, 0, 0, 1633837952]) =
      zip (take 16 (drop 0 round_constants))
        [1633837952, 0, 0, 0, 0, 0, 0, 0, 0, 0, 0, 0, 0, 0, 0, 24] @
      zip (take 16 (drop 16 round_constants))
        [1633837952, 983040, 2108187653, 1610613702, 1050508152, 25426944, 316456923,
         3806512014, 3357629466, 3073800610, 3854317833, 845560923, 2636160359, 3968280267,
         1881225380, 3552024379] @
      zip (take 16 (drop 32 round_constants))
        [2482346367, 996719219, 2952069057, 4043988066, 176896406, 1924104970, 2483675966,
         610538786, 2672279444, 4037431130, 1042573945, 657669027, 206005234, 2215296807,
         2049510749, 106709978] @
      zip (take 16 (drop 48 round_constants))
        [4215179723, 3430291419, 3118885940, 2845390439, 2226839261, 3256115900, 344409900,
         2987358873, 4015503821, 3957764664, 2682456414, 2025622859, 2755645205, 1720397816,
         4004225740, 313650667]"
    by (simp add: round_constants_def)
  show ?thesis
    unfolding compress_def words_abc schedule_abc split foldl_append
      rounds0_abc rounds1_abc rounds2_abc rounds3_abc
    by (simp add: initial_state_def)
qed

lemma hash_password_abc:
  "hash_password ''abc'' =
     ''ba7816bf8f01cfea414140de5dae2223b00361a396177a9cb410ff61f20015ad''"
  by (simp add: hash_password_def sha256_def block_abc compress_abc hex_word_def hex_char_def
      hex_digits_def)

text \<open>
  The digests of the two passwords of the example of the specification, \<^verbatim>\<open>pw1\<close> and
  \<^verbatim>\<open>wrong\<close>.
\<close>

lemma block_pw1:
  "blocks (pad (encode ''pw1'')) =
     [[112, 119, 49, 128, 0, 0, 0, 0, 0, 0, 0, 0, 0, 0, 0, 0, 0, 0, 0, 0, 0, 0, 0, 0, 0, 0, 0,
      0, 0, 0, 0, 0, 0, 0, 0, 0, 0, 0, 0, 0, 0, 0, 0, 0, 0, 0, 0, 0, 0, 0, 0, 0, 0, 0, 0, 0, 0,
      0, 0, 0, 0, 0, 0, 24]]"
  by (simp add: encode_def pad_def length_bytes_def blocks_def replicate_numeral_eval)

lemma words_pw1:
  "block_words
     [112, 119, 49, 128, 0, 0, 0, 0, 0, 0, 0, 0, 0, 0, 0, 0, 0, 0, 0, 0, 0, 0, 0, 0, 0, 0, 0,
      0, 0, 0, 0, 0, 0, 0, 0, 0, 0, 0, 0, 0, 0, 0, 0, 0, 0, 0, 0, 0, 0, 0, 0, 0, 0, 0, 0, 0, 0,
      0, 0, 0, 0, 0, 0, 24] =
   rev [24, 0, 0, 0, 0, 0, 0, 0, 0, 0, 0, 0, 0, 0, 0, 1886859648]"
  by (simp add: block_words_def word_of_bytes_def upt_numeral_eval)

lemma schedule_pw1:
  "schedule 48
     (rev [24, 0, 0, 0, 0, 0, 0, 0, 0, 0, 0, 0, 0, 0, 0, 1886859648]) =
   rev [399042125, 2979350367, 4215524779, 2084529487, 3670771679, 3040035254, 3499871536,
        2057452730, 218135961, 203730358, 2681009141, 1464472130, 2337180337, 1398011893,
        2283568170, 3670367947, 577273732, 848991216, 4180807449, 1688163514, 922932183,
        3012840030, 2454249666, 2142881928, 3714923069, 1873244162, 64683408, 971915564,
        2784495881, 303064164, 3503225254, 1126157659, 246026442, 39807768, 1801752096,
        1179232895, 4091318733, 2388790031, 3115779866, 1967987303, 4059533710, 2424364399,
        25426944, 2426153889, 1610613702, 2129406969, 983040, 1886859648, 24, 0, 0, 0, 0, 0, 0,
        0, 0, 0, 0, 0, 0, 0, 0, 1886859648]"
  by (simp add: schedule_rev_numeral schedule_rev_Suc sigma0_def sigma1_def rotr_eval push_eval
      del: rev.simps schedule.simps(2))

lemma rounds0_pw1:
  "foldl sha_round
     initial_state
     (zip (take 16 (drop 0 round_constants))
        [1886859648, 0, 0, 0, 0, 0, 0, 0, 0, 0, 0, 0, 0, 0, 0, 24]) =
   (473718833, 3942249341, 1600601595, 629347404, 4167589258, 269801377, 3945047285, 64733167)"
  by (simp add: initial_state_def round_constants_def Sigma0_def Sigma1_def Ch_def Maj_def
      rotr_eval push_eval not_eval Let_def)

lemma rounds1_pw1:
  "foldl sha_round
     (473718833, 3942249341, 1600601595, 629347404, 4167589258, 269801377, 3945047285, 64733167)
     (zip (take 16 (drop 16 round_constants))
        [1886859648, 983040, 2129406969, 1610613702, 2426153889, 25426944, 2424364399,
         4059533710, 1967987303, 3115779866, 2388790031, 4091318733, 1179232895, 1801752096,
         39807768, 246026442]) =
   (1268378610, 2142674571, 2865853397, 1672752387, 226694945, 3936724647, 4277963002,
    1315394060)"
  by (simp add: initial_state_def round_constants_def Sigma0_def Sigma1_def Ch_def Maj_def
      rotr_eval push_eval not_eval Let_def)

lemma rounds2_pw1:
  "foldl sha_round
     (1268378610, 2142674571, 2865853397, 1672752387, 226694945, 3936724647, 4277963002,
      1315394060)
     (zip (take 16 (drop 32 round_constants))
        [1126157659, 3503225254, 303064164, 2784495881, 971915564, 64683408, 1873244162,
         3714923069, 2142881928, 2454249666, 3012840030, 922932183, 1688163514, 4180807449,
         848991216, 577273732]) =
   (2096534261, 303559507, 467015289, 347362983, 3748362299, 3159214819, 3003541087, 2377801739)"
  by (simp add: initial_state_def round_constants_def Sigma0_def Sigma1_def Ch_def Maj_def
      rotr_eval push_eval not_eval Let_def)

lemma rounds3_pw1:
  "foldl sha_round
     (2096534261, 303559507, 467015289, 347362983, 3748362299, 3159214819, 3003541087,
      2377801739)
     (zip (take 16 (drop 48 round_constants))
        [3670367947, 2283568170, 1398011893, 2337180337, 1464472130, 2681009141, 203730358,
         218135961, 2057452730, 3499871536, 3040035254, 3670771679, 2084529487, 4215524779,
         2979350367, 399042125]) =
   (1535703267, 3408629005, 1903011024, 2598234591, 995441706, 592652514, 3344931235,
    3260057055)"
  by (simp add: initial_state_def round_constants_def Sigma0_def Sigma1_def Ch_def Maj_def
      rotr_eval push_eval not_eval Let_def)

lemma compress_pw1:
  "compress initial_state
     [112, 119, 49, 128, 0, 0, 0, 0, 0, 0, 0, 0, 0, 0, 0, 0, 0, 0, 0, 0, 0, 0, 0, 0, 0, 0, 0,
      0, 0, 0, 0, 0, 0, 0, 0, 0, 0, 0, 0, 0, 0, 0, 0, 0, 0, 0, 0, 0, 0, 0, 0, 0, 0, 0, 0, 0, 0,
      0, 0, 0, 0, 0, 0, 24] =
   (3314736970, 2257795986, 2916915266, 1076748057, 2355334825, 3193475438, 3873665870,
    506548984)"
proof -
  have split: "zip round_constants (rev [399042125, 2979350367, 4215524779, 2084529487, 3670771679, 3040035254, 3499871536,
      2057452730, 218135961, 203730358, 2681009141, 1464472130, 2337180337, 1398011893,
      2283568170, 3670367947, 577273732, 848991216, 4180807449, 1688163514, 922932183,
      3012840030, 2454249666, 2142881928, 3714923069, 1873244162, 64683408, 971915564,
      2784495881, 303064164, 3503225254, 1126157659, 246026442, 39807768, 1801752096,
      1179232895, 4091318733, 2388790031, 3115779866, 1967987303, 4059533710, 2424364399,
      25426944, 2426153889, 1610613702, 2129406969, 983040, 1886859648, 24, 0, 0, 0, 0, 0, 0,
      0, 0, 0, 0, 0, 0, 0, 0, 1886859648]) =
      zip (take 16 (drop 0 round_constants))
        [1886859648, 0, 0, 0, 0, 0, 0, 0, 0, 0, 0, 0, 0, 0, 0, 24] @
      zip (take 16 (drop 16 round_constants))
        [1886859648, 983040, 2129406969, 1610613702, 2426153889, 25426944, 2424364399,
         4059533710, 1967987303, 3115779866, 2388790031, 4091318733, 1179232895, 1801752096,
         39807768, 246026442] @
      zip (take 16 (drop 32 round_constants))
        [1126157659, 3503225254, 303064164, 2784495881, 971915564, 64683408, 1873244162,
         3714923069, 2142881928, 2454249666, 3012840030, 922932183, 1688163514, 4180807449,
         848991216, 577273732] @
      zip (take 16 (drop 48 round_constants))
        [3670367947, 2283568170, 1398011893, 2337180337, 1464472130, 2681009141, 203730358,
         218135961, 2057452730, 3499871536, 3040035254, 3670771679, 2084529487, 4215524779,
         2979350367, 399042125]"
    by (simp add: round_constants_def)
  show ?thesis
    unfolding compress_def words_pw1 schedule_pw1 split foldl_append
      rounds0_pw1 rounds1_pw1 rounds2_pw1 rounds3_pw1
    by (simp add: initial_state_def)
qed

lemma hash_password_pw1:
  "hash_password ''pw1'' =
     ''c592df4a86933b92addc9842402ddf198c638ea9be58916ee6e3734e1e3152f8''"
  by (simp add: hash_password_def sha256_def block_pw1 compress_pw1 hex_word_def hex_char_def
      hex_digits_def)

lemma block_wrong:
  "blocks (pad (encode ''wrong'')) =
     [[119, 114, 111, 110, 103, 128, 0, 0, 0, 0, 0, 0, 0, 0, 0, 0, 0, 0, 0, 0, 0, 0, 0, 0, 0, 0,
      0, 0, 0, 0, 0, 0, 0, 0, 0, 0, 0, 0, 0, 0, 0, 0, 0, 0, 0, 0, 0, 0, 0, 0, 0, 0, 0, 0, 0, 0,
      0, 0, 0, 0, 0, 0, 0, 40]]"
  by (simp add: encode_def pad_def length_bytes_def blocks_def replicate_numeral_eval)

lemma words_wrong:
  "block_words
     [119, 114, 111, 110, 103, 128, 0, 0, 0, 0, 0, 0, 0, 0, 0, 0, 0, 0, 0, 0, 0, 0, 0, 0, 0, 0,
      0, 0, 0, 0, 0, 0, 0, 0, 0, 0, 0, 0, 0, 0, 0, 0, 0, 0, 0, 0, 0, 0, 0, 0, 0, 0, 0, 0, 0, 0,
      0, 0, 0, 0, 0, 0, 0, 40] =
   rev [40, 0, 0, 0, 0, 0, 0, 0, 0, 0, 0, 0, 0, 0, 1736441856, 2003988334]"
  by (simp add: block_words_def word_of_bytes_def upt_numeral_eval)

lemma schedule_wrong:
  "schedule 48
     (rev [40, 0, 0, 0, 0, 0, 0, 0, 0, 0, 0, 0, 0, 0, 1736441856, 2003988334]) =
   rev [3588848245, 26798046, 4206011585, 2001328672, 2335129566, 775785082, 1501843496,
        1701648391, 2922181588, 3265134353, 2890819248, 1762818591, 2716126817, 3817615719,
        4235787368, 3015065111, 3005328501, 3875730097, 4233896960, 1057919446, 1881882111,
        497273070, 1619532526, 1378750963, 2452888304, 2806474113, 4155558488, 813638193,
        1416390370, 3269292092, 3177932683, 1388428776, 346850144, 3616272318, 3204874710,
        2399448815, 1278459450, 1809028479, 4172661991, 2492155550, 3304585328, 373104230,
        3606708857, 4049768445, 2686049146, 4121853388, 1737555968, 2209450318, 40, 0, 0, 0, 0,
        0, 0, 0, 0, 0, 0, 0, 0, 0, 1736441856, 2003988334]"
  by (simp add: schedule_rev_numeral schedule_rev_Suc sigma0_def sigma1_def rotr_eval push_eval
      del: rev.simps schedule.simps(2))

lemma rounds0_wrong:
  "foldl sha_round
     initial_state
     (zip (take 16 (drop 0 round_constants))
        [2003988334, 1736441856, 0, 0, 0, 0, 0, 0, 0, 0, 0, 0, 0, 0, 0, 40]) =
   (3614798515, 3420384475, 1464485150, 4272831270, 3167969169, 3588268594, 1305837761,
    560125704)"
  by (simp add: initial_state_def round_constants_def Sigma0_def Sigma1_def Ch_def Maj_def
      rotr_eval push_eval not_eval Let_def)

lemma rounds1_wrong:
  "foldl sha_round
     (3614798515, 3420384475, 1464485150, 4272831270, 3167969169, 3588268594, 1305837761,
      560125704)
     (zip (take 16 (drop 16 round_constants))
        [2209450318, 1737555968, 4121853388, 2686049146, 4049768445, 3606708857, 373104230,
         3304585328, 2492155550, 4172661991, 1809028479, 1278459450, 2399448815, 3204874710,
         3616272318, 346850144]) =
   (3176101494, 3436310783, 2977736456, 2792388493, 1841794291, 253057022, 2183527691,
    1130998295)"
  by (simp add: initial_state_def round_constants_def Sigma0_def Sigma1_def Ch_def Maj_def
      rotr_eval push_eval not_eval Let_def)

lemma rounds2_wrong:
  "foldl sha_round
     (3176101494, 3436310783, 2977736456, 2792388493, 1841794291, 253057022, 2183527691,
      1130998295)
     (zip (take 16 (drop 32 round_constants))
        [1388428776, 3177932683, 3269292092, 1416390370, 813638193, 4155558488, 2806474113,
         2452888304, 1378750963, 1619532526, 497273070, 1881882111, 1057919446, 4233896960,
         3875730097, 3005328501]) =
   (1165649870, 2829291416, 2453731294, 314412989, 12517097, 863046166, 723959014, 3701146988)"
  by (simp add: initial_state_def round_constants_def Sigma0_def Sigma1_def Ch_def Maj_def
      rotr_eval push_eval not_eval Let_def)

lemma rounds3_wrong:
  "foldl sha_round
     (1165649870, 2829291416, 2453731294, 314412989, 12517097, 863046166, 723959014, 3701146988)
     (zip (take 16 (drop 48 round_constants))
        [3015065111, 4235787368, 3817615719, 2716126817, 1762818591, 2890819248, 3265134353,
         2922181588, 1701648391, 1501843496, 775785082, 2335129566, 2001328672, 4206011585,
         26798046, 3588848245]) =
   (503760625, 1660044343, 4240031471, 3408559094, 1047511327, 356693930, 1312881686, 834090252)"
  by (simp add: initial_state_def round_constants_def Sigma0_def Sigma1_def Ch_def Maj_def
      rotr_eval push_eval not_eval Let_def)

lemma compress_wrong:
  "compress initial_state
     [119, 114, 111, 110, 103, 128, 0, 0, 0, 0, 0, 0, 0, 0, 0, 0, 0, 0, 0, 0, 0, 0, 0, 0, 0, 0,
      0, 0, 0, 0, 0, 0, 0, 0, 0, 0, 0, 0, 0, 0, 0, 0, 0, 0, 0, 0, 0, 0, 0, 0, 0, 0, 0, 0, 0, 0,
      0, 0, 0, 0, 0, 0, 0, 40] =
   (2282794328, 509211324, 958968417, 1887072560, 2407404446, 2957516854, 1841616321,
    2375549477)"
proof -
  have split: "zip round_constants (rev [3588848245, 26798046, 4206011585, 2001328672, 2335129566, 775785082, 1501843496,
      1701648391, 2922181588, 3265134353, 2890819248, 1762818591, 2716126817, 3817615719,
      4235787368, 3015065111, 3005328501, 3875730097, 4233896960, 1057919446, 1881882111,
      497273070, 1619532526, 1378750963, 2452888304, 2806474113, 4155558488, 813638193,
      1416390370, 3269292092, 3177932683, 1388428776, 346850144, 3616272318, 3204874710,
      2399448815, 1278459450, 1809028479, 4172661991, 2492155550, 3304585328, 373104230,
      3606708857, 4049768445, 2686049146, 4121853388, 1737555968, 2209450318, 40, 0, 0, 0, 0,
      0, 0, 0, 0, 0, 0, 0, 0, 0, 1736441856, 2003988334]) =
      zip (take 16 (drop 0 round_constants))
        [2003988334, 1736441856, 0, 0, 0, 0, 0, 0, 0, 0, 0, 0, 0, 0, 0, 40] @
      zip (take 16 (drop 16 round_constants))
        [2209450318, 1737555968, 4121853388, 2686049146, 4049768445, 3606708857, 373104230,
         3304585328, 2492155550, 4172661991, 1809028479, 1278459450, 2399448815, 3204874710,
         3616272318, 346850144] @
      zip (take 16 (drop 32 round_constants))
        [1388428776, 3177932683, 3269292092, 1416390370, 813638193, 4155558488, 2806474113,
         2452888304, 1378750963, 1619532526, 497273070, 1881882111, 1057919446, 4233896960,
         3875730097, 3005328501] @
      zip (take 16 (drop 48 round_constants))
        [3015065111, 4235787368, 3817615719, 2716126817, 1762818591, 2890819248, 3265134353,
         2922181588, 1701648391, 1501843496, 775785082, 2335129566, 2001328672, 4206011585,
         26798046, 3588848245]"
    by (simp add: round_constants_def)
  show ?thesis
    unfolding compress_def words_wrong schedule_wrong split foldl_append
      rounds0_wrong rounds1_wrong rounds2_wrong rounds3_wrong
    by (simp add: initial_state_def)
qed

lemma hash_password_wrong:
  "hash_password ''wrong'' =
     ''8810ad581e59f2bc3928b261707a71308f7e139eb04820366dc4d5c18d980225''"
  by (simp add: hash_password_def sha256_def block_wrong compress_wrong hex_word_def hex_char_def
      hex_digits_def)

lemma hash_password_pw1_neq_wrong: "hash_password ''pw1'' \<noteq> hash_password ''wrong''"
  by (simp add: hash_password_pw1 hash_password_wrong)

section \<open>Queries, inserts and the handlers\<close>

lemma matches_single: "matches [(k, v)] doc \<longleftrightarrow> map_of doc k = Some v"
  by (simp add: matches_def)

lemma find_one_SomeD:
  "find_one coll [(k, v)] = Some f \<Longrightarrow> map_of f k = Some v \<and> f \<in> set coll \<and> f \<noteq> []"
  by (auto simp: find_one_def matches_single find_Some_iff)

lemma find_one_None_iff:
  "find_one coll [(k, v)] = None \<longleftrightarrow> \<not> (\<exists>doc \<in> set coll. map_of doc k = Some v)"
  by (auto simp: find_one_def matches_single find_None_iff)

lemma truthy_find_one: "truthy (find_one coll [(k, v)]) \<longleftrightarrow> find_one coll [(k, v)] \<noteq> None"
  by (auto simp: truthy_def dest: find_one_SomeD split: option.splits)

lemma find_one_append:
  "find_one (coll @ [doc]) flt =
     (case find_one coll flt of Some f \<Rightarrow> Some f
      | None \<Rightarrow> if matches flt doc then Some doc else None)"
  by (induction coll) (auto simp: find_one_def)

lemma find_one_insert_one:
  "k \<noteq> ''_id'' \<Longrightarrow>
   find_one (collections (insert_one d c doc) c) [(k, v)] =
     (case find_one (collections d c) [(k, v)] of Some f \<Rightarrow> Some f
      | None \<Rightarrow> if map_of doc k = Some v
                then Some (if map_of doc ''_id'' \<noteq> None then doc else (''_id'', ObjectId (next_id d)) # doc)
                else None)"
  by (auto simp: insert_one_def find_one_append matches_single split: option.splits)

lemma collections_insert_one_other:
  "c' \<noteq> c \<Longrightarrow> collections (insert_one d c doc) c' = collections d c'"
  by (simp add: insert_one_def)

lemma login_unavailable: "login None req = Inl (HTTPException 500 ''Database not available'')"
  by (simp add: login_def)

lemma login_available:
  "login (Some d) req =
     (case find_one (collections d ''user'') [(''email'', Str (LoginRequest.email req))] of
        None \<Rightarrow> Inl (HTTPException 401 ''Invalid credentials'')
      | Some f \<Rightarrow>
          if map_of f ''password_hash'' \<noteq> Some (Str (hash_password (LoginRequest.password req)))
          then Inl (HTTPException 401 ''Invalid credentials'')
          else new_AuthResponse (map_of f ''name'') (map_of f ''email'')
                 (case map_of f ''role'' of None \<Rightarrow> Some (Str ''student'') | Some r \<Rightarrow> Some r)
                 (hash_password (LoginRequest.email req @ ''|'' @ LoginRequest.password req)))"
  by (auto simp: login_def login_on_def Let_def truthy_find_one split: option.splits)

lemma new_AuthResponse_Inr:
  "new_AuthResponse n e r t = Inr a \<longleftrightarrow>
     (\<exists>n' e' r'. n = Some (Str n') \<and> e = Some (Str e') \<and> r = Some (Str r') \<and>
        a = \<lparr>AuthResponse.name = n', AuthResponse.email = e', AuthResponse.role = r',
             AuthResponse.token = t\<rparr>)"
  by (auto simp: new_AuthResponse_def split: option.splits val.splits)


lemma register_unavailable:
  "register None req = (Inl (HTTPException 500 ''Database not available''), None)"
  by (simp add: register_def)

lemma register_conflict:
  "find_one (collections d ''user'') [(''email'', Str (RegisterRequest.email req))] \<noteq> None \<Longrightarrow>
   register (Some d) req = (Inl (HTTPException 400 ''Email already registered''), Some d)"
  by (simp add: register_def truthy_find_one)

lemma register_fresh:
  "find_one (collections d ''user'') [(''email'', Str (RegisterRequest.email req))] = None \<Longrightarrow>
   register (Some d) req =
     (Inr \<lparr>AuthResponse.name = RegisterRequest.name req,
           AuthResponse.email = RegisterRequest.email req,
           AuthResponse.role = ''student'',
           AuthResponse.token =
             hash_password (RegisterRequest.email req @ ''|'' @ RegisterRequest.password req)\<rparr>,
      Some (insert_one d ''user''
        [(''name'', Str (RegisterRequest.name req)), (''email'', Str (RegisterRequest.email req)),
         (''password_hash'', Str (hash_password (RegisterRequest.password req))),
         (''role'', Str ''student''), (''is_active'', Bool True)]))"
  by (simp add: register_def truthy_def create_document_def model_dump_def)

lemma register_Inr_token:
  "register db req = (Inr r, s) \<Longrightarrow>
   AuthResponse.token r = hash_password (RegisterRequest.email req @ ''|'' @ RegisterRequest.password req)"
  by (auto simp: register_def create_document_def Let_def split: option.splits if_splits)

lemma login_Inr_token:
  "login db req = Inr r \<Longrightarrow>
   AuthResponse.token r = hash_password (LoginRequest.email req @ ''|'' @ LoginRequest.password req)"
  by (cases db) (auto simp: login_unavailable login_available new_AuthResponse_Inr split: option.splits if_splits)

lemma insert_one_fresh_user:
  "map_of doc ''_id'' = None \<Longrightarrow>
   collections (insert_one d c doc) c = collections d c @ [(''_id'', ObjectId (next_id d)) # doc]"
  by (simp add: insert_one_def)

lemma register_InrD:
  assumes "register db req = (Inr r, db')"
  shows "\<exists>d. db = Some d \<and>
           find_one (collections d ''user'') [(''email'', Str (RegisterRequest.email req))] = None"
proof (cases db)
  case None
  with assms show ?thesis by (simp add: register_unavailable)
next
  case (Some d)
  show ?thesis
  proof (cases "find_one (collections d ''user'') [(''email'', Str (RegisterRequest.email req))]")
    case None
    with Some show ?thesis by simp
  next
    case (Some f)
    then have "find_one (collections d ''user'') [(''email'', Str (RegisterRequest.email req))] \<noteq> None"
      by simp
    from register_conflict [OF this] assms \<open>db = Some d\<close> show ?thesis by simp
  qed
qed

lemma hash_password_neq_plain:
  "length p \<noteq> 64 \<or> \<not> set p \<subseteq> set hex_digits \<Longrightarrow> hash_password p \<noteq> p"
  using length_hash_password [of p] set_hash_password [of p] by auto

lemma map_of_set_is_active:
  "k \<noteq> ''is_active'' \<Longrightarrow> map_of (set_is_active b doc) k = map_of doc k"
  by (induction doc) (auto simp: set_is_active_def)

lemma find_map_commute:
  "(\<And>x. P (g x) = P x) \<Longrightarrow> List.find P (map g xs) = map_option g (List.find P xs)"
  by (induction xs) auto

lemma find_one_set_is_active:
  "k \<noteq> ''is_active'' \<Longrightarrow>
   find_one (map (set_is_active b) coll) [(k, v)] = map_option (set_is_active b) (find_one coll [(k, v)])"
  unfolding find_one_def
  by (rule find_map_commute) (simp add: matches_single map_of_set_is_active)

section \<open>Seeding and listing\<close>

lemma hex_char_eq_iff: "hex_char m = hex_char n \<longleftrightarrow> m mod 16 = n mod 16"
proof -
  have d: "distinct hex_digits" by (simp add: hex_digits_def)
  have l: "m mod 16 < length hex_digits" "n mod 16 < length hex_digits"
    by (simp_all add: hex_digits_def)
  show ?thesis unfolding hex_char_def by (rule nth_eq_iff_index_eq [OF d l])
qed

lemma str_ObjectId_inj:
  assumes "str (ObjectId a) = str (ObjectId b)"
  shows "a = b"
proof (rule bit_word_eqI)
  fix n :: nat
  assume n: "n < LENGTH(96)"
  define i where "i = n div 4"
  define j where "j = n mod 4"
  have i: "i < 24" using n by (simp add: i_def)
  have nj: "n = 4 * i + j" and j: "j < 4" by (simp_all add: i_def j_def)
  from assms have "\<forall>k \<in> set (rev [0..<24]).
      hex_char (unat (drop_bit (4 * k) a)) = hex_char (unat (drop_bit (4 * k) b))"
    by (simp only: str.simps map_eq_conv)
  with i have "unat (drop_bit (4 * i) a) mod 16 = unat (drop_bit (4 * i) b) mod 16"
    by (simp add: hex_char_eq_iff)
  then have "take_bit 4 (unat (drop_bit (4 * i) a)) = take_bit 4 (unat (drop_bit (4 * i) b))"
    by (simp add: take_bit_eq_mod)
  then have "bit (take_bit 4 (unat (drop_bit (4 * i) a))) j
      \<longleftrightarrow> bit (take_bit 4 (unat (drop_bit (4 * i) b))) j"
    by simp
  with nj j n show "bit a n \<longleftrightarrow> bit b n"
    by (simp add: bit_simps)
qed

lemma map_of_expose_id:
  "map_of doc ''_id'' = Some v \<Longrightarrow>
   map_of (expose_id doc) ''id'' = Some (Str (str v)) \<and> map_of (expose_id doc) ''_id'' = None"
  by (simp add: expose_id_def update_conv' delete_conv')

lemma list_courses_Some:
  "list_courses (Some d) = Inr \<lparr>items = map expose_id (collections d ''course''), error = None\<rparr>"
  by (simp add: list_courses_def list_courses_of_def get_documents_def)

lemma list_courses_of_Inl:
  "list_courses_of (Inl e) = Inr \<lparr>items = [], error = Some (str_exn e)\<rparr>"
  by (simp add: list_courses_of_def)

lemma list_courses_items:
  assumes "list_courses (Some d) = Inr r"
    and "\<forall>doc \<in> set (collections d ''course''). map_of doc ''_id'' \<noteq> None"
    and "it \<in> set (items r)"
  shows "map_of it ''_id'' = None \<and>
         (\<exists>doc \<in> set (collections d ''course''). \<exists>v.
            map_of doc ''_id'' = Some v \<and> map_of it ''id'' = Some (Str (str v)))"
proof -
  from assms(1) have "items r = map expose_id (collections d ''course'')"
    by (auto simp: list_courses_Some)
  with assms(3) obtain doc where doc: "doc \<in> set (collections d ''course'')"
    and it: "it = expose_id doc" by auto
  from assms(2) doc obtain v where v: "map_of doc ''_id'' = Some v" by auto
  from map_of_expose_id [OF v] it doc v show ?thesis by blast
qed

lemma collections_insert_many_other:
  "c' \<noteq> c \<Longrightarrow> collections (insert_many d c docs) c' = collections d c'"
  unfolding insert_many_def
  by (induction docs arbitrary: d) (simp_all add: collections_insert_one_other)

lemma length_insert_one:
  "length (collections (insert_one d c doc) c) = Suc (length (collections d c))"
  by (simp add: insert_one_def)

lemma length_insert_many:
  "length (collections (insert_many d c docs) c) = length (collections d c) + length docs"
  unfolding insert_many_def
  by (induction docs arbitrary: d) (simp_all add: length_insert_one)

lemma count_documents_all: "count_documents coll [] = length coll"
  by (simp add: count_documents_def matches_def)

lemma seed_samples_nonempty:
  "collections d ''course'' \<noteq> [] \<Longrightarrow> seed_samples (Some d) = Some d"
  by (simp add: seed_samples_def count_documents_all)

lemma seed_samples_Some:
  "\<exists>d'. seed_samples (Some d) = Some d' \<and> collections d' ''user'' = collections d ''user'' \<and>
        collections d' ''course'' \<noteq> []"
proof (cases "collections d ''course'' = []")
  case True
  have "length (collections (insert_many d ''course'' samples) ''course'') = 4"
    by (simp add: length_insert_many True samples_def)
  then have "collections (insert_many d ''course'' samples) ''course'' \<noteq> []"
    by auto
  with True show ?thesis
    by (simp add: seed_samples_def count_documents_all collections_insert_many_other)
next
  case False
  then show ?thesis by (simp add: seed_samples_nonempty)
qed

lemma ensure_user_Inr:
  "map_of u ''email'' = Some e \<Longrightarrow>
   ensure_user d u =
     Inr (if find_one (collections d ''user'') [(''email'', e)] = None
          then insert_one d ''user'' u else d)"
  by (simp add: ensure_user_def truthy_find_one)

lemma ensure_user_present:
  "map_of u ''email'' = Some e \<Longrightarrow> find_one (collections d ''user'') [(''email'', e)] \<noteq> None \<Longrightarrow>
   ensure_user d u = Inr d"
  by (auto simp: ensure_user_Inr)

lemma ensure_user_keeps:
  assumes "map_of u ''email'' = Some e" and "ensure_user d u = Inr d'"
    and "find_one (collections d ''user'') [(''email'', x)] \<noteq> None"
  shows "find_one (collections d' ''user'') [(''email'', x)] \<noteq> None"
  using assms by (auto simp: ensure_user_Inr find_one_insert_one split: if_splits)

lemma ensure_user_adds:
  assumes "map_of u ''email'' = Some e" and "ensure_user d u = Inr d'"
  shows "find_one (collections d' ''user'') [(''email'', e)] \<noteq> None"
  using assms by (auto simp: ensure_user_Inr find_one_insert_one split: if_splits)


lemma defaults_emails:
  "defaults = [a, f] \<Longrightarrow>
   map_of a ''email'' = Some (Str ''admin@elearning.com'') \<and>
   map_of f ''email'' = Some (Str ''faculty@elearning.com'')"
  by (auto simp: defaults_def)

lemma ensure_each_defaults:
  "\<exists>d'. ensure_each d defaults = (None, d') \<and>
     find_one (collections d' ''user'') [(''email'', Str ''admin@elearning.com'')] \<noteq> None \<and>
     find_one (collections d' ''user'') [(''email'', Str ''faculty@elearning.com'')] \<noteq> None \<and>
     (\<forall>c. c \<noteq> ''user'' \<longrightarrow> collections d' c = collections d c)"
proof -
  obtain a f where af: "defaults = [a, f]" by (simp add: defaults_def)
  from defaults_emails [OF af]
  have a: "map_of a ''email'' = Some (Str ''admin@elearning.com'')"
    and f: "map_of f ''email'' = Some (Str ''faculty@elearning.com'')" by simp_all
  obtain d1 where d1: "ensure_user d a = Inr d1" by (simp add: ensure_user_Inr [OF a])
  obtain d2 where d2: "ensure_user d1 f = Inr d2" by (simp add: ensure_user_Inr [OF f])
  have "ensure_each d defaults = (None, d2)" by (simp add: af d1 d2)
  moreover have "find_one (collections d2 ''user'') [(''email'', Str ''admin@elearning.com'')] \<noteq> None"
    using ensure_user_keeps [OF f d2] ensure_user_adds [OF a d1] by simp
  moreover have "find_one (collections d2 ''user'') [(''email'', Str ''faculty@elearning.com'')] \<noteq> None"
    using ensure_user_adds [OF f d2] by simp
  moreover have "\<forall>c. c \<noteq> ''user'' \<longrightarrow> collections d2 c = collections d c"
    using d1 d2 by (auto simp: ensure_user_Inr [OF a] ensure_user_Inr [OF f]
        collections_insert_one_other split: if_splits)
  ultimately show ?thesis by blast
qed

lemma ensure_each_present:
  assumes "find_one (collections d ''user'') [(''email'', Str ''admin@elearning.com'')] \<noteq> None"
    and "find_one (collections d ''user'') [(''email'', Str ''faculty@elearning.com'')] \<noteq> None"
  shows "ensure_each d defaults = (None, d)"
proof -
  obtain a f where af: "defaults = [a, f]" by (simp add: defaults_def)
  from defaults_emails [OF af]
  have a: "map_of a ''email'' = Some (Str ''admin@elearning.com'')"
    and f: "map_of f ''email'' = Some (Str ''faculty@elearning.com'')" by simp_all
  show ?thesis
    by (simp add: af ensure_user_present [OF a assms(1)] ensure_user_present [OF f assms(2)])
qed

lemma startup_event_idem: "startup_event (startup_event db) = startup_event db"
proof (cases db)
  case None
  then show ?thesis by (simp add: startup_event_def ensure_default_users_def seed_samples_def)
next
  case (Some d)
  from ensure_each_defaults [of d] obtain d1 where d1: "ensure_each d defaults = (None, d1)"
    and pa: "find_one (collections d1 ''user'') [(''email'', Str ''admin@elearning.com'')] \<noteq> None"
    and pf: "find_one (collections d1 ''user'') [(''email'', Str ''faculty@elearning.com'')] \<noteq> None"
    by blast
  from seed_samples_Some [of d1] obtain d2 where d2: "seed_samples (Some d1) = Some d2"
    and u: "collections d2 ''user'' = collections d1 ''user''"
    and c: "collections d2 ''course'' \<noteq> []" by blast
  have first: "startup_event db = Some d2"
    by (simp add: Some startup_event_def ensure_default_users_def d1 d2)
  have "ensure_each d2 defaults = (None, d2)"
    using pa pf by (intro ensure_each_present) (simp_all add: u)
  then have "startup_event (Some d2) = Some d2"
    by (simp add: startup_event_def ensure_default_users_def seed_samples_nonempty [OF c])
  with first show ?thesis by simp
qed

lemmas seeding_eval = startup_event_def ensure_default_users_def ensure_user_def defaults_def
  find_one_def matches_def truthy_def insert_one_def seed_samples_def count_documents_def
  insert_many_def samples_def

lemma distinct_ids:
  "distinct [str (ObjectId (n + 2)), str (ObjectId (n + 3)), str (ObjectId (n + 4)),
             str (ObjectId (n + 5))]"
proof -
  have "inj_on (\<lambda>w. str (ObjectId w)) (set [n + 2, n + 3, n + 4, n + 5])"
    by (rule inj_onI) (rule str_ObjectId_inj)
  moreover have "distinct [n + 2, n + 3, n + 4, n + 5]" by simp
  ultimately have "distinct (map (\<lambda>w. str (ObjectId w)) [n + 2, n + 3, n + 4, n + 5])"
    by (simp only: distinct_map simp_thms)
  then show ?thesis by (simp del: str.simps)
qed

lemma str_ObjectId_2: "str (ObjectId 2) = ''000000000000000000000002''"
  by (simp add: hex_char_def hex_digits_def upt_numeral_eval)

lemma insert_one_last_id:
  "\<exists>v. map_of (last (collections (insert_one d c doc) c)) ''_id'' = Some v"
  by (auto simp: insert_one_def)

section \<open>The invariant of the user collection\<close>


lemma user_record_Cons_id: "user_record ((''_id'', x) # u) \<longleftrightarrow> user_record u"
  by (simp add: user_record_def)

lemma user_records_insert_one:
  assumes "list_all user_record (collections d ''user'')" and "user_record u"
  shows "list_all user_record (collections (insert_one d ''user'' u) ''user'')"
  using assms by (simp add: insert_one_def user_record_Cons_id)

lemma user_records_insert_other:
  "c \<noteq> ''user'' \<Longrightarrow> list_all user_record (collections d ''user'') \<Longrightarrow>
   list_all user_record (collections (insert_one d c u) ''user'')"
  by (simp add: collections_insert_one_other)

lemma user_records_register:
  assumes "list_all user_record (collections d ''user'')"
    and "register (Some d) req = (res, Some d')"
  shows "list_all user_record (collections d' ''user'')"
proof (cases "find_one (collections d ''user'') [(''email'', Str (RegisterRequest.email req))]")
  case None
  have "user_record [(''name'', Str (RegisterRequest.name req)),
      (''email'', Str (RegisterRequest.email req)),
      (''password_hash'', Str (hash_password (RegisterRequest.password req))),
      (''role'', Str ''student''), (''is_active'', Bool True)]"
    by (simp add: user_record_def is_text_def)
  from user_records_insert_one [OF assms(1) this] register_fresh [OF None] assms(2)
  show ?thesis by simp
next
  case (Some f)
  then have "find_one (collections d ''user'') [(''email'', Str (RegisterRequest.email req))] \<noteq> None"
    by simp
  from register_conflict [OF this] assms show ?thesis by simp
qed

lemma user_records_ensure_each:
  assumes "list_all user_record us" and "list_all user_record (collections d ''user'')"
  shows "list_all user_record (collections (snd (ensure_each d us)) ''user'')"
  using assms
proof (induction us arbitrary: d)
  case Nil
  then show ?case by simp
next
  case (Cons u us)
  show ?case
  proof (cases "ensure_user d u")
    case (Inl e)
    with Cons.prems show ?thesis by simp
  next
    case (Inr d1)
    from Cons.prems have u: "user_record u" and us: "list_all user_record us" by simp_all
    from Inr have "d1 = d \<or> d1 = insert_one d ''user'' u"
      by (auto simp: ensure_user_def split: option.splits if_splits)
    with Cons.prems(2) u have "list_all user_record (collections d1 ''user'')"
      by (auto intro: user_records_insert_one)
    from Cons.IH [OF us this] Inr show ?thesis by simp
  qed
qed

lemma user_records_startup:
  assumes "list_all user_record (collections d ''user'')"
    and "startup_event (Some d) = Some d'"
  shows "list_all user_record (collections d' ''user'')"
proof -
  have defaults: "list_all user_record defaults"
    by (simp add: defaults_def user_record_def is_text_def)
  obtain raised d1 where d1: "ensure_each d defaults = (raised, d1)"
    by (cases "ensure_each d defaults")
  with user_records_ensure_each [OF defaults assms(1)]
  have inv1: "list_all user_record (collections d1 ''user'')" by simp
  show ?thesis
  proof (cases raised)
    case (Some e)
    with assms(2) d1 inv1 show ?thesis
      by (simp add: startup_event_def ensure_default_users_def)
  next
    case None
    from seed_samples_Some [of d1] obtain d2 where d2: "seed_samples (Some d1) = Some d2"
      and u: "collections d2 ''user'' = collections d1 ''user''" by blast
    with None assms(2) d1 inv1 show ?thesis
      by (simp add: startup_event_def ensure_default_users_def)
  qed
qed


section \<open>The claims\<close>

text \<open>
  C1. With the store available and no user document holding the email, \<^verbatim>\<open>register\<close>
  succeeds, and a \<^verbatim>\<open>login\<close> with the same email and password on the store it leaves
  succeeds with the same response, so with the same token, the hash of
  \<^verbatim>\<open>email + "|" + password\<close>.
\<close>

theorem register_then_login:
  assumes "find_one (collections d ''user'') [(''email'', Str (RegisterRequest.email req))] = None"
  shows "\<exists>r d'. register (Some d) req = (Inr r, Some d') \<and>
           login (Some d') \<lparr>LoginRequest.email = RegisterRequest.email req,
                            LoginRequest.password = RegisterRequest.password req\<rparr> = Inr r \<and>
           AuthResponse.token r =
             hash_password (RegisterRequest.email req @ ''|'' @ RegisterRequest.password req)"
  using assms
  by (simp add: register_fresh login_available find_one_insert_one new_AuthResponse_def)

theorem register_then_login_witness:
  "\<exists>r d'. register (Some \<lparr>collections = (\<lambda>c. []), next_id = 0\<rparr>)
             \<lparr>RegisterRequest.name = ''Alice'', RegisterRequest.email = ''alice@x.com'',
              RegisterRequest.password = ''pw1''\<rparr> = (Inr r, Some d') \<and>
           login (Some d') \<lparr>LoginRequest.email = ''alice@x.com'', LoginRequest.password = ''pw1''\<rparr>
             = Inr r \<and>
           AuthResponse.token r = hash_password ''alice@x.com|pw1''"
  using register_then_login [of "\<lparr>collections = (\<lambda>c. []), next_id = 0\<rparr>"
      "\<lparr>RegisterRequest.name = ''Alice'', RegisterRequest.email = ''alice@x.com'',
        RegisterRequest.password = ''pw1''\<rparr>"]
  by (simp add: find_one_def)


text \<open>
  C2. The token of a successful \<^verbatim>\<open>register\<close> and of a successful \<^verbatim>\<open>login\<close> is
  \<^verbatim>\<open>hash_password(email + "|" + password)\<close>, the function that also computes the stored
  password hash; it depends on the email and the password only, so calls with the same
  email and password return the same token. The hash is a string of 64 characters, each
  a lower-case hexadecimal digit.
\<close>

theorem token_derivation:
  "(\<forall>r s. register db req = (Inr r, s) \<longrightarrow>
      AuthResponse.token r =
        hash_password (RegisterRequest.email req @ ''|'' @ RegisterRequest.password req)) \<and>
   (\<forall>r. login db' lreq = Inr r \<longrightarrow>
      AuthResponse.token r =
        hash_password (LoginRequest.email lreq @ ''|'' @ LoginRequest.password lreq)) \<and>
   (\<forall>r r' s. register db req = (Inr r, s) \<and> login db' lreq = Inr r' \<and>
      RegisterRequest.email req = LoginRequest.email lreq \<and>
      RegisterRequest.password req = LoginRequest.password lreq \<longrightarrow>
      AuthResponse.token r = AuthResponse.token r') \<and>
   length (hash_password p) = 64 \<and> set (hash_password p) \<subseteq> set hex_digits"
proof (intro conjI allI impI)
  fix r s assume "register db req = (Inr r, s)"
  then show "AuthResponse.token r =
      hash_password (RegisterRequest.email req @ ''|'' @ RegisterRequest.password req)"
    by (rule register_Inr_token)
next
  fix r assume "login db' lreq = Inr r"
  then show "AuthResponse.token r =
      hash_password (LoginRequest.email lreq @ ''|'' @ LoginRequest.password lreq)"
    by (rule login_Inr_token)
next
  fix r r' s
  assume a: "register db req = (Inr r, s) \<and> login db' lreq = Inr r' \<and>
      RegisterRequest.email req = LoginRequest.email lreq \<and>
      RegisterRequest.password req = LoginRequest.password lreq"
  then show "AuthResponse.token r = AuthResponse.token r'"
    using register_Inr_token [of db req r s] login_Inr_token [of db' lreq r'] by simp
next
  show "length (hash_password p) = 64" by (rule length_hash_password)
next
  show "set (hash_password p) \<subseteq> set hex_digits" by (rule set_hash_password)
qed

theorem token_derivation_witness:
  "register (Some \<lparr>collections = (\<lambda>c. []), next_id = 0\<rparr>)
     \<lparr>RegisterRequest.name = ''Alice'', RegisterRequest.email = ''alice@x.com'',
      RegisterRequest.password = ''pw1''\<rparr>
   = (Inr \<lparr>AuthResponse.name = ''Alice'', AuthResponse.email = ''alice@x.com'',
           AuthResponse.role = ''student'', AuthResponse.token = hash_password ''alice@x.com|pw1''\<rparr>,
      Some \<lparr>collections = (\<lambda>c. [])(''user'' :=
              [[(''_id'', ObjectId 0), (''name'', Str ''Alice''), (''email'', Str ''alice@x.com''),
                (''password_hash'', Str (hash_password ''pw1'')), (''role'', Str ''student''),
                (''is_active'', Bool True)]]),
            next_id = 1\<rparr>) \<and>
   login (Some \<lparr>collections = (\<lambda>c. [])(''user'' :=
              [[(''_id'', ObjectId 0), (''name'', Str ''Alice''), (''email'', Str ''alice@x.com''),
                (''password_hash'', Str (hash_password ''pw1'')), (''role'', Str ''student''),
                (''is_active'', Bool True)]]),
            next_id = 1\<rparr>)
     \<lparr>LoginRequest.email = ''alice@x.com'', LoginRequest.password = ''pw1''\<rparr>
   = Inr \<lparr>AuthResponse.name = ''Alice'', AuthResponse.email = ''alice@x.com'',
          AuthResponse.role = ''student'', AuthResponse.token = hash_password ''alice@x.com|pw1''\<rparr>"
  using token_derivation [of "Some \<lparr>collections = (\<lambda>c. []), next_id = 0\<rparr>"
      "\<lparr>RegisterRequest.name = ''Alice'', RegisterRequest.email = ''alice@x.com'',
        RegisterRequest.password = ''pw1''\<rparr>"
      "Some \<lparr>collections = (\<lambda>c. [])(''user'' :=
              [[(''_id'', ObjectId 0), (''name'', Str ''Alice''), (''email'', Str ''alice@x.com''),
                (''password_hash'', Str (hash_password ''pw1'')), (''role'', Str ''student''),
                (''is_active'', Bool True)]]),
            next_id = 1\<rparr>"
      "\<lparr>LoginRequest.email = ''alice@x.com'', LoginRequest.password = ''pw1''\<rparr>" "''pw1''"]
  by (simp add: register_def login_def login_on_def find_one_def matches_def truthy_def
      create_document_def model_dump_def insert_one_def new_AuthResponse_def)


text \<open>
  C4. On an available store with no user document holding the email, a first
  \<^verbatim>\<open>register\<close> succeeds and adds one user document; a second \<^verbatim>\<open>register\<close> with
  that email, whatever its name and password, fails with status 400 and detail
  "Email already registered" and leaves the store as the first call left it.
\<close>

theorem register_twice:
  assumes "find_one (collections d ''user'') [(''email'', Str (RegisterRequest.email req1))] = None"
    and "RegisterRequest.email req2 = RegisterRequest.email req1"
  shows "\<exists>r d1. register (Some d) req1 = (Inr r, Some d1) \<and>
           length (collections d1 ''user'') = Suc (length (collections d ''user'')) \<and>
           register (Some d1) req2 =
             (Inl (HTTPException 400 ''Email already registered''), Some d1)"
proof -
  let ?u = "[(''name'', Str (RegisterRequest.name req1)), (''email'', Str (RegisterRequest.email req1)),
         (''password_hash'', Str (hash_password (RegisterRequest.password req1))),
         (''role'', Str ''student''), (''is_active'', Bool True)]"
  let ?d1 = "insert_one d ''user'' ?u"
  from assms(1) have 1: "register (Some d) req1 =
      (Inr \<lparr>AuthResponse.name = RegisterRequest.name req1,
           AuthResponse.email = RegisterRequest.email req1,
           AuthResponse.role = ''student'',
           AuthResponse.token =
             hash_password (RegisterRequest.email req1 @ ''|'' @ RegisterRequest.password req1)\<rparr>, Some ?d1)"
    by (rule register_fresh)
  have 2: "length (collections ?d1 ''user'') = Suc (length (collections d ''user''))"
    by (simp add: insert_one_def)
  have "find_one (collections ?d1 ''user'') [(''email'', Str (RegisterRequest.email req2))] \<noteq> None"
    using assms by (simp add: find_one_insert_one)
  then have 3: "register (Some ?d1) req2 = (Inl (HTTPException 400 ''Email already registered''), Some ?d1)"
    by (rule register_conflict)
  from 1 2 3 show ?thesis by blast
qed

theorem register_twice_witness:
  "\<exists>r d1. register (Some \<lparr>collections = (\<lambda>c. []), next_id = 0\<rparr>)
              \<lparr>RegisterRequest.name = ''Alice'', RegisterRequest.email = ''alice@x.com'',
               RegisterRequest.password = ''pw1''\<rparr> = (Inr r, Some d1) \<and>
           length (collections d1 ''user'') = 1 \<and>
           register (Some d1)
              \<lparr>RegisterRequest.name = ''Mallory'', RegisterRequest.email = ''alice@x.com'',
               RegisterRequest.password = ''other''\<rparr> =
             (Inl (HTTPException 400 ''Email already registered''), Some d1)"
  using register_twice [of "\<lparr>collections = (\<lambda>c. []), next_id = 0\<rparr>"
      "\<lparr>RegisterRequest.name = ''Alice'', RegisterRequest.email = ''alice@x.com'',
        RegisterRequest.password = ''pw1''\<rparr>"
      "\<lparr>RegisterRequest.name = ''Mallory'', RegisterRequest.email = ''alice@x.com'',
               RegisterRequest.password = ''other''\<rparr>"]
  by (simp add: find_one_def)

text \<open>
  What a successful \<^verbatim>\<open>register\<close> persists: it appends exactly one user document, with
  the fresh identifier, the name and the email of the request, the hash of the password,
  the role \<^verbatim>\<open>student\<close> and \<^verbatim>\<open>is_active\<close> true. The request model carries a name, an
  email and a password only. The stored hash is 64 hexadecimal digits, so it differs
  from the password whenever the password is not itself such a string. Whether the
  digest of a string of 64 hexadecimal digits can be that string is left open, and with
  it the part of C6 that says the stored hash is never the plaintext.
\<close>

theorem register_persists_student:
  assumes "register db req = (Inr r, db')"
  shows "\<exists>d d'. db = Some d \<and> db' = Some d' \<and>
           collections d' ''user'' = collections d ''user'' @
             [[(''_id'', ObjectId (next_id d)),
               (''name'', Str (RegisterRequest.name req)),
               (''email'', Str (RegisterRequest.email req)),
               (''password_hash'', Str (hash_password (RegisterRequest.password req))),
               (''role'', Str ''student''),
               (''is_active'', Bool True)]] \<and>
           AuthResponse.role r = ''student'' \<and>
           (length (RegisterRequest.password req) \<noteq> 64 \<or>
            \<not> set (RegisterRequest.password req) \<subseteq> set hex_digits \<longrightarrow>
              hash_password (RegisterRequest.password req) \<noteq> RegisterRequest.password req)"
proof -
  from register_InrD [OF assms] obtain d where d: "db = Some d"
    and fresh: "find_one (collections d ''user'') [(''email'', Str (RegisterRequest.email req))] = None"
    by blast
  from register_fresh [OF fresh] assms d
  have r: "r = \<lparr>AuthResponse.name = RegisterRequest.name req,
           AuthResponse.email = RegisterRequest.email req,
           AuthResponse.role = ''student'',
           AuthResponse.token =
             hash_password (RegisterRequest.email req @ ''|'' @ RegisterRequest.password req)\<rparr>"
    and d': "db' = Some (insert_one d ''user''
        [(''name'', Str (RegisterRequest.name req)), (''email'', Str (RegisterRequest.email req)),
         (''password_hash'', Str (hash_password (RegisterRequest.password req))),
         (''role'', Str ''student''), (''is_active'', Bool True)])"
    by simp_all
  show ?thesis
    using d d' r hash_password_neq_plain [of "RegisterRequest.password req"]
    by (simp add: insert_one_fresh_user)
qed


theorem register_persists_student_witness:
  "register (Some \<lparr>collections = (\<lambda>c. []), next_id = 0\<rparr>)
     \<lparr>RegisterRequest.name = ''Alice'', RegisterRequest.email = ''alice@x.com'',
      RegisterRequest.password = ''pw1''\<rparr>
   = (Inr \<lparr>AuthResponse.name = ''Alice'', AuthResponse.email = ''alice@x.com'',
           AuthResponse.role = ''student'', AuthResponse.token = hash_password ''alice@x.com|pw1''\<rparr>,
      Some \<lparr>collections = (\<lambda>c. [])(''user'' :=
              [[(''_id'', ObjectId 0), (''name'', Str ''Alice''), (''email'', Str ''alice@x.com''),
                (''password_hash'', Str (hash_password ''pw1'')), (''role'', Str ''student''),
                (''is_active'', Bool True)]]),
            next_id = 1\<rparr>) \<and>
   hash_password ''pw1'' \<noteq> ''pw1''"
  using register_persists_student [of "Some \<lparr>collections = (\<lambda>c. []), next_id = 0\<rparr>"
      "\<lparr>RegisterRequest.name = ''Alice'', RegisterRequest.email = ''alice@x.com'',
        RegisterRequest.password = ''pw1''\<rparr>"
      "\<lparr>AuthResponse.name = ''Alice'', AuthResponse.email = ''alice@x.com'',
           AuthResponse.role = ''student'', AuthResponse.token = hash_password ''alice@x.com|pw1''\<rparr>"
      "Some \<lparr>collections = (\<lambda>c. [])(''user'' :=
              [[(''_id'', ObjectId 0), (''name'', Str ''Alice''), (''email'', Str ''alice@x.com''),
                (''password_hash'', Str (hash_password ''pw1'')), (''role'', Str ''student''),
                (''is_active'', Bool True)]]),
            next_id = 1\<rparr>"]
  by (simp add: register_def find_one_def truthy_def create_document_def model_dump_def
      insert_one_def)





text \<open>
  C9. \<^verbatim>\<open>login\<close> never reads \<^verbatim>\<open>is_active\<close>: overwriting the flag of every user document
  with any value leaves its outcome unchanged, and a user whose stored hash matches logs
  in although \<^verbatim>\<open>is_active\<close> is false (with the stored role, or \<^verbatim>\<open>student\<close> when the
  document has none).
\<close>

theorem login_ignores_is_active:
  "login (Some (set_all_active b d)) req = login (Some d) req \<and>
   (\<forall>f n. find_one (collections d ''user'') [(''email'', Str (LoginRequest.email req))] = Some f \<and>
      map_of f ''password_hash'' = Some (Str (hash_password (LoginRequest.password req))) \<and>
      map_of f ''name'' = Some (Str n) \<and>
      map_of f ''role'' = None \<and>
      map_of f ''is_active'' = Some (Bool False) \<longrightarrow>
      login (Some d) req =
        Inr \<lparr>AuthResponse.name = n, AuthResponse.email = LoginRequest.email req,
             AuthResponse.role = ''student'',
             AuthResponse.token =
               hash_password (LoginRequest.email req @ ''|'' @ LoginRequest.password req)\<rparr>) \<and>
   (\<forall>f n r. find_one (collections d ''user'') [(''email'', Str (LoginRequest.email req))] = Some f \<and>
      map_of f ''password_hash'' = Some (Str (hash_password (LoginRequest.password req))) \<and>
      map_of f ''name'' = Some (Str n) \<and>
      map_of f ''role'' = Some (Str r) \<and>
      map_of f ''is_active'' = Some (Bool False) \<longrightarrow>
      login (Some d) req =
        Inr \<lparr>AuthResponse.name = n, AuthResponse.email = LoginRequest.email req,
             AuthResponse.role = r,
             AuthResponse.token =
               hash_password (LoginRequest.email req @ ''|'' @ LoginRequest.password req)\<rparr>)"
proof (intro conjI allI impI)
  show "login (Some (set_all_active b d)) req = login (Some d) req"
    by (cases "find_one (collections d ''user'') [(''email'', Str (LoginRequest.email req))]")
      (simp_all add: login_available set_all_active_def find_one_set_is_active map_of_set_is_active)
next
  fix f n
  assume "find_one (collections d ''user'') [(''email'', Str (LoginRequest.email req))] = Some f \<and>
      map_of f ''password_hash'' = Some (Str (hash_password (LoginRequest.password req))) \<and>
      map_of f ''name'' = Some (Str n) \<and>
      map_of f ''role'' = None \<and>
      map_of f ''is_active'' = Some (Bool False)"
  then show "login (Some d) req =
        Inr \<lparr>AuthResponse.name = n, AuthResponse.email = LoginRequest.email req,
             AuthResponse.role = ''student'',
             AuthResponse.token =
               hash_password (LoginRequest.email req @ ''|'' @ LoginRequest.password req)\<rparr>"
    using find_one_SomeD [of "collections d ''user''" "''email''" "Str (LoginRequest.email req)" f]
    by (simp add: login_available new_AuthResponse_def)
next
  fix f n r
  assume "find_one (collections d ''user'') [(''email'', Str (LoginRequest.email req))] = Some f \<and>
      map_of f ''password_hash'' = Some (Str (hash_password (LoginRequest.password req))) \<and>
      map_of f ''name'' = Some (Str n) \<and>
      map_of f ''role'' = Some (Str r) \<and>
      map_of f ''is_active'' = Some (Bool False)"
  then show "login (Some d) req =
        Inr \<lparr>AuthResponse.name = n, AuthResponse.email = LoginRequest.email req,
             AuthResponse.role = r,
             AuthResponse.token =
               hash_password (LoginRequest.email req @ ''|'' @ LoginRequest.password req)\<rparr>"
    using find_one_SomeD [of "collections d ''user''" "''email''" "Str (LoginRequest.email req)" f]
    by (simp add: login_available new_AuthResponse_def)
qed

theorem login_ignores_is_active_witness:
  "login (Some \<lparr>collections = (\<lambda>c. [])(''user'' :=
              [[(''_id'', ObjectId 0), (''name'', Str ''Alice''), (''email'', Str ''alice@x.com''),
                (''password_hash'', Str (hash_password ''pw1'')), (''role'', Str ''student''),
                (''is_active'', Bool False)]]),
            next_id = 1\<rparr>)
     \<lparr>LoginRequest.email = ''alice@x.com'', LoginRequest.password = ''pw1''\<rparr>
   = Inr \<lparr>AuthResponse.name = ''Alice'', AuthResponse.email = ''alice@x.com'',
          AuthResponse.role = ''student'', AuthResponse.token = hash_password ''alice@x.com|pw1''\<rparr>"
  using login_ignores_is_active [of False "\<lparr>collections = (\<lambda>c. [])(''user'' :=
              [[(''_id'', ObjectId 0), (''name'', Str ''Alice''), (''email'', Str ''alice@x.com''),
                (''password_hash'', Str (hash_password ''pw1'')), (''role'', Str ''student''),
                (''is_active'', Bool False)]]),
            next_id = 1\<rparr>"
     "\<lparr>LoginRequest.email = ''alice@x.com'', LoginRequest.password = ''pw1''\<rparr>"]
  by (simp add: find_one_def matches_def)

text \<open>
  C10. The two failures of \<^verbatim>\<open>login\<close> on an available store are the same error: an
  email no user document holds, and a stored hash that differs from the hash of the
  password, both raise status 401 with detail "Invalid credentials".
\<close>

theorem login_failures_indistinguishable:
  assumes "find_one (collections d1 ''user'') [(''email'', Str (LoginRequest.email req1))] = None"
    and "find_one (collections d2 ''user'') [(''email'', Str (LoginRequest.email req2))] = Some f"
    and "map_of f ''password_hash'' \<noteq> Some (Str (hash_password (LoginRequest.password req2)))"
  shows "login (Some d1) req1 = Inl (HTTPException 401 ''Invalid credentials'') \<and>
         login (Some d2) req2 = Inl (HTTPException 401 ''Invalid credentials'') \<and>
         login (Some d1) req1 = login (Some d2) req2"
  using assms by (simp add: login_available)

theorem login_failures_indistinguishable_witness:
  "login (Some \<lparr>collections = (\<lambda>c. [])(''user'' :=
              [[(''_id'', ObjectId 0), (''name'', Str ''Alice''), (''email'', Str ''alice@x.com''),
                (''password_hash'', Str (hash_password ''pw1'')), (''role'', Str ''student''),
                (''is_active'', Bool True)]]),
            next_id = 1\<rparr>)
     \<lparr>LoginRequest.email = ''nobody@x.com'', LoginRequest.password = ''pw1''\<rparr>
   = Inl (HTTPException 401 ''Invalid credentials'') \<and>
   login (Some \<lparr>collections = (\<lambda>c. [])(''user'' :=
              [[(''_id'', ObjectId 0), (''name'', Str ''Alice''), (''email'', Str ''alice@x.com''),
                (''password_hash'', Str (hash_password ''pw1'')), (''role'', Str ''student''),
                (''is_active'', Bool True)]]),
            next_id = 1\<rparr>)
     \<lparr>LoginRequest.email = ''alice@x.com'', LoginRequest.password = ''wrong''\<rparr>
   = Inl (HTTPException 401 ''Invalid credentials'')"
  using login_failures_indistinguishable [of "\<lparr>collections = (\<lambda>c. [])(''user'' :=
              [[(''_id'', ObjectId 0), (''name'', Str ''Alice''), (''email'', Str ''alice@x.com''),
                (''password_hash'', Str (hash_password ''pw1'')), (''role'', Str ''student''),
                (''is_active'', Bool True)]]),
            next_id = 1\<rparr>"
     "\<lparr>LoginRequest.email = ''nobody@x.com'', LoginRequest.password = ''pw1''\<rparr>"
     "\<lparr>collections = (\<lambda>c. [])(''user'' :=
              [[(''_id'', ObjectId 0), (''name'', Str ''Alice''), (''email'', Str ''alice@x.com''),
                (''password_hash'', Str (hash_password ''pw1'')), (''role'', Str ''student''),
                (''is_active'', Bool True)]]),
            next_id = 1\<rparr>"
     "\<lparr>LoginRequest.email = ''alice@x.com'', LoginRequest.password = ''wrong''\<rparr>"
     "[(''_id'', ObjectId 0), (''name'', Str ''Alice''), (''email'', Str ''alice@x.com''),
                (''password_hash'', Str (hash_password ''pw1'')), (''role'', Str ''student''),
                (''is_active'', Bool True)]"]
    hash_password_pw1_neq_wrong
  by (simp add: find_one_def matches_def)

text \<open>
  C5. Seeding is idempotent: \<^verbatim>\<open>startup_event\<close> run twice leaves what one run leaves,
  on every store. From an empty store it leaves exactly the two baseline users
  (\<^verbatim>\<open>admin@elearning.com\<close> with role \<^verbatim>\<open>admin\<close>, \<^verbatim>\<open>faculty@elearning.com\<close> with role
  \<^verbatim>\<open>faculty\<close>) and exactly the four sample courses. A default user is inserted only
  when no document holds its email, and the batch of courses only into an empty
  collection.
\<close>

theorem seeding_idempotent:
  "startup_event (startup_event db) = startup_event db \<and>
   (\<exists>d. startup_event (startup_event (Some \<lparr>collections = (\<lambda>c. []), next_id = n\<rparr>)) = Some d \<and>
      collections d ''user'' =
        [[(''_id'', ObjectId n), (''name'', Str ''Admin''),
          (''email'', Str ''admin@elearning.com''),
          (''password_hash'', Str (hash_password ''admin123'')),
          (''role'', Str ''admin''), (''is_active'', Bool True)],
         [(''_id'', ObjectId (n + 1)), (''name'', Str ''Faculty''),
          (''email'', Str ''faculty@elearning.com''),
          (''password_hash'', Str (hash_password ''faculty123'')),
          (''role'', Str ''faculty''), (''is_active'', Bool True)]] \<and>
      length (collections d ''user'') = 2 \<and>
      map (\<lambda>doc. map_of doc ''title'') (collections d ''course'') =
        [Some (Str ''Web Development''), Some (Str ''Cyber Security''),
         Some (Str ''Python''), Some (Str ''C++'')] \<and>
      length (collections d ''course'') = 4) \<and>
   (\<forall>d u e. map_of u ''email'' = Some e \<and>
      find_one (collections d ''user'') [(''email'', e)] \<noteq> None \<longrightarrow> ensure_user d u = Inr d) \<and>
   (\<forall>d. collections d ''course'' \<noteq> [] \<longrightarrow> seed_samples (Some d) = Some d)"
proof (intro conjI allI impI)
  show "startup_event (startup_event db) = startup_event db"
    by (rule startup_event_idem)
next
  show "\<exists>d. startup_event (startup_event (Some \<lparr>collections = (\<lambda>c. []), next_id = n\<rparr>)) = Some d \<and>
      collections d ''user'' =
        [[(''_id'', ObjectId n), (''name'', Str ''Admin''),
          (''email'', Str ''admin@elearning.com''),
          (''password_hash'', Str (hash_password ''admin123'')),
          (''role'', Str ''admin''), (''is_active'', Bool True)],
         [(''_id'', ObjectId (n + 1)), (''name'', Str ''Faculty''),
          (''email'', Str ''faculty@elearning.com''),
          (''password_hash'', Str (hash_password ''faculty123'')),
          (''role'', Str ''faculty''), (''is_active'', Bool True)]] \<and>
      length (collections d ''user'') = 2 \<and>
      map (\<lambda>doc. map_of doc ''title'') (collections d ''course'') =
        [Some (Str ''Web Development''), Some (Str ''Cyber Security''),
         Some (Str ''Python''), Some (Str ''C++'')] \<and>
      length (collections d ''course'') = 4"
    unfolding startup_event_idem by (simp add: seeding_eval)
next
  fix d :: database and u e
  assume "map_of u ''email'' = Some e \<and> find_one (collections d ''user'') [(''email'', e)] \<noteq> None"
  then show "ensure_user d u = Inr d" by (simp add: ensure_user_present)
next
  fix d :: database
  assume "collections d ''course'' \<noteq> []"
  then show "seed_samples (Some d) = Some d" by (rule seed_samples_nonempty)
qed

theorem seeding_idempotent_witness:
  "\<exists>d. startup_event (Some \<lparr>collections = (\<lambda>c. []), next_id = 0\<rparr>) = Some d \<and>
        startup_event (Some d) = Some d \<and> seed_samples (Some d) = Some d \<and>
        length (collections d ''user'') = 2 \<and> length (collections d ''course'') = 4"
proof -
  note t = seeding_idempotent [of "Some \<lparr>collections = (\<lambda>c. []), next_id = 0\<rparr>" 0]
  from t have idem: "startup_event (startup_event (Some \<lparr>collections = (\<lambda>c. []), next_id = 0\<rparr>))
      = startup_event (Some \<lparr>collections = (\<lambda>c. []), next_id = 0\<rparr>)"
    by (rule conjunct1)
  from t [THEN conjunct2, THEN conjunct1] obtain d
    where d: "startup_event (startup_event (Some \<lparr>collections = (\<lambda>c. []), next_id = 0\<rparr>)) = Some d"
      and lu: "length (collections d ''user'') = 2"
      and lc: "length (collections d ''course'') = 4"
    by blast
  from d idem have s: "startup_event (Some \<lparr>collections = (\<lambda>c. []), next_id = 0\<rparr>) = Some d"
    by simp
  with idem have "startup_event (Some d) = Some d" by simp
  moreover from lc have "collections d ''course'' \<noteq> []" by auto
  with t [THEN conjunct2, THEN conjunct2, THEN conjunct2] have "seed_samples (Some d) = Some d"
    by blast
  ultimately show ?thesis using s lu lc by blast
qed

text \<open>
  C7. Whatever \<^verbatim>\<open>get_documents\<close> raises, \<^verbatim>\<open>list_courses\<close> returns the listing with no
  items and the text of the exception as its error; it returns a listing on every store
  handle and never raises.
\<close>

theorem list_courses_best_effort:
  "(\<forall>e. list_courses_of (Inl e) = Inr \<lparr>items = [], error = Some (str_exn e)\<rparr>) \<and>
   (\<forall>e. get_documents db ''course'' = Inl e \<longrightarrow>
      list_courses db = Inr \<lparr>items = [], error = Some (str_exn e)\<rparr>) \<and>
   (\<exists>r. list_courses db = Inr r)"
proof (intro conjI allI impI)
  fix e
  show "list_courses_of (Inl e) = Inr \<lparr>items = [], error = Some (str_exn e)\<rparr>"
    by (rule list_courses_of_Inl)
next
  fix e
  assume "get_documents db ''course'' = Inl e"
  then show "list_courses db = Inr \<lparr>items = [], error = Some (str_exn e)\<rparr>"
    by (simp add: list_courses_def list_courses_of_Inl)
next
  show "\<exists>r. list_courses db = Inr r"
    by (simp add: list_courses_def list_courses_of_def split: sum.splits)
qed

theorem list_courses_best_effort_witness:
  "get_documents None ''course'' = Inl (Exception ''Database not available'') \<and>
   list_courses None = Inr \<lparr>items = [], error = Some ''Database not available''\<rparr>"
  using list_courses_best_effort [of None]
  by (simp add: get_documents_def)

text \<open>
  C8. \<^verbatim>\<open>list_courses\<close> returns the course documents through the loop body: an item
  whose document carries \<^verbatim>\<open>_id\<close> has the field \<^verbatim>\<open>id\<close>, the text of that identifier,
  and no field \<^verbatim>\<open>_id\<close>; every document the store inserts carries \<^verbatim>\<open>_id\<close>. On a store
  seeded from empty, the listing is the four sample courses, each with its \<^verbatim>\<open>id\<close>, and
  the four ids are distinct strings.
\<close>

theorem list_courses_ids:
  "list_courses (Some d) =
     Inr \<lparr>items = map expose_id (collections d ''course''), error = None\<rparr> \<and>
   (\<forall>doc v. map_of doc ''_id'' = Some v \<longrightarrow>
      map_of (expose_id doc) ''id'' = Some (Str (str v)) \<and> map_of (expose_id doc) ''_id'' = None) \<and>
   (\<forall>c doc. \<exists>v. map_of (last (collections (insert_one d c doc) c)) ''_id'' = Some v) \<and>
   (\<forall>r. list_courses (Some d) = Inr r \<and>
      (\<forall>doc \<in> set (collections d ''course''). map_of doc ''_id'' \<noteq> None) \<longrightarrow>
      (\<forall>it \<in> set (items r). map_of it ''_id'' = None \<and>
         (\<exists>doc \<in> set (collections d ''course''). \<exists>v.
            map_of doc ''_id'' = Some v \<and> map_of it ''id'' = Some (Str (str v))))) \<and>
   list_courses (startup_event (Some \<lparr>collections = (\<lambda>c. []), next_id = n\<rparr>)) =
     Inr \<lparr>items =
            [[(''title'', Str ''Web Development''), (''category'', Str ''Courses''),
              (''level'', Str ''Beginner''), (''id'', Str (str (ObjectId (n + 2))))],
             [(''title'', Str ''Cyber Security''), (''category'', Str ''Courses''),
              (''level'', Str ''Intermediate''), (''id'', Str (str (ObjectId (n + 3))))],
             [(''title'', Str ''Python''), (''category'', Str ''Programming Languages''),
              (''level'', Str ''Beginner''), (''id'', Str (str (ObjectId (n + 4))))],
             [(''title'', Str ''C++''), (''category'', Str ''Programming Languages''),
              (''level'', Str ''Intermediate''), (''id'', Str (str (ObjectId (n + 5))))]],
          error = None\<rparr> \<and>
   distinct [str (ObjectId (n + 2)), str (ObjectId (n + 3)), str (ObjectId (n + 4)),
             str (ObjectId (n + 5))]"
proof (intro conjI allI impI)
  show "list_courses (Some d) =
     Inr \<lparr>items = map expose_id (collections d ''course''), error = None\<rparr>"
    by (rule list_courses_Some)
next
  fix doc :: document and v
  assume "map_of doc ''_id'' = Some v"
  then show "map_of (expose_id doc) ''id'' = Some (Str (str v))"
    and "map_of (expose_id doc) ''_id'' = None"
    by (simp_all add: map_of_expose_id)
next
  fix c and doc :: document
  show "\<exists>v. map_of (last (collections (insert_one d c doc) c)) ''_id'' = Some v"
    by (rule insert_one_last_id)
next
  fix r
  assume "list_courses (Some d) = Inr r \<and>
      (\<forall>doc \<in> set (collections d ''course''). map_of doc ''_id'' \<noteq> None)"
  then show "\<forall>it \<in> set (items r). map_of it ''_id'' = None \<and>
         (\<exists>doc \<in> set (collections d ''course''). \<exists>v.
            map_of doc ''_id'' = Some v \<and> map_of it ''id'' = Some (Str (str v)))"
    using list_courses_items [of d r] by blast
next
  show "list_courses (startup_event (Some \<lparr>collections = (\<lambda>c. []), next_id = n\<rparr>)) =
     Inr \<lparr>items =
            [[(''title'', Str ''Web Development''), (''category'', Str ''Courses''),
              (''level'', Str ''Beginner''), (''id'', Str (str (ObjectId (n + 2))))],
             [(''title'', Str ''Cyber Security''), (''category'', Str ''Courses''),
              (''level'', Str ''Intermediate''), (''id'', Str (str (ObjectId (n + 3))))],
             [(''title'', Str ''Python''), (''category'', Str ''Programming Languages''),
              (''level'', Str ''Beginner''), (''id'', Str (str (ObjectId (n + 4))))],
             [(''title'', Str ''C++''), (''category'', Str ''Programming Languages''),
              (''level'', Str ''Intermediate''), (''id'', Str (str (ObjectId (n + 5))))]],
          error = None\<rparr>"
    by (simp add: seeding_eval list_courses_Some expose_id_def add.commute del: str.simps)
next
  show "distinct [str (ObjectId (n + 2)), str (ObjectId (n + 3)), str (ObjectId (n + 4)),
             str (ObjectId (n + 5))]"
    by (rule distinct_ids)
qed

theorem list_courses_ids_witness:
  "map_of (expose_id [(''_id'', ObjectId 2), (''title'', Str ''Web Development''),
                      (''category'', Str ''Courses''), (''level'', Str ''Beginner'')]) ''id''
     = Some (Str (str (ObjectId 2))) \<and>
   map_of (expose_id [(''_id'', ObjectId 2), (''title'', Str ''Web Development''),
                      (''category'', Str ''Courses''), (''level'', Str ''Beginner'')]) ''_id''
     = None \<and>
   list_courses (startup_event (Some \<lparr>collections = (\<lambda>c. []), next_id = 0\<rparr>)) =
     Inr \<lparr>items =
            [[(''title'', Str ''Web Development''), (''category'', Str ''Courses''),
              (''level'', Str ''Beginner''), (''id'', Str (str (ObjectId 2)))],
             [(''title'', Str ''Cyber Security''), (''category'', Str ''Courses''),
              (''level'', Str ''Intermediate''), (''id'', Str (str (ObjectId 3)))],
             [(''title'', Str ''Python''), (''category'', Str ''Programming Languages''),
              (''level'', Str ''Beginner''), (''id'', Str (str (ObjectId 4)))],
             [(''title'', Str ''C++''), (''category'', Str ''Programming Languages''),
              (''level'', Str ''Intermediate''), (''id'', Str (str (ObjectId 5)))]],
          error = None\<rparr> \<and>
   str (ObjectId 2) = ''000000000000000000000002''"
proof -
  note t = list_courses_ids [of "\<lparr>collections = (\<lambda>c. []), next_id = 0\<rparr>" 0]
  have "map_of [(''_id'', ObjectId 2), (''title'', Str ''Web Development''),
                (''category'', Str ''Courses''), (''level'', Str ''Beginner'')] ''_id''
      = Some (ObjectId 2)"
    by simp
  with t [THEN conjunct2, THEN conjunct1]
  have a: "map_of (expose_id [(''_id'', ObjectId 2), (''title'', Str ''Web Development''),
                      (''category'', Str ''Courses''), (''level'', Str ''Beginner'')]) ''id''
     = Some (Str (str (ObjectId 2))) \<and>
   map_of (expose_id [(''_id'', ObjectId 2), (''title'', Str ''Web Development''),
                      (''category'', Str ''Courses''), (''level'', Str ''Beginner'')]) ''_id''
     = None"
    by blast
  from t [THEN conjunct2, THEN conjunct2, THEN conjunct2, THEN conjunct2, THEN conjunct1]
  have b: "list_courses (startup_event (Some \<lparr>collections = (\<lambda>c. []), next_id = 0\<rparr>)) =
     Inr \<lparr>items =
            [[(''title'', Str ''Web Development''), (''category'', Str ''Courses''),
              (''level'', Str ''Beginner''), (''id'', Str (str (ObjectId 2)))],
             [(''title'', Str ''Cyber Security''), (''category'', Str ''Courses''),
              (''level'', Str ''Intermediate''), (''id'', Str (str (ObjectId 3)))],
             [(''title'', Str ''Python''), (''category'', Str ''Programming Languages''),
              (''level'', Str ''Beginner''), (''id'', Str (str (ObjectId 4)))],
             [(''title'', Str ''C++''), (''category'', Str ''Programming Languages''),
              (''level'', Str ''Intermediate''), (''id'', Str (str (ObjectId 5)))]],
          error = None\<rparr>"
    by (simp del: str.simps)
  from a b str_ObjectId_2 show ?thesis by (simp del: str.simps)
qed

end
